theory Spec2Isabelle
  imports Main "HOL-Library.Word"
begin

unbundle bit_operations_syntax

section \<open>Code memory, effects and failures\<close>

text \<open>
  \<^verbatim>\<open>address\<close> is \<^verbatim>\<open>u_char*\<close> on a 64-bit machine; \<^verbatim>\<open>int\<close>, \<^verbatim>\<open>int32_t\<close>,
  \<^verbatim>\<open>unsigned\<close>, \<^verbatim>\<open>uint32_t\<close> and \<^verbatim>\<open>juint\<close> are 32-bit words (read with \<open>sint\<close> where
  the source type is signed), \<^verbatim>\<open>intptr_t\<close> and \<^verbatim>\<open>int64_t\<close> are 64-bit words. The null
  pointer is the address 0. Memory is byte addressed and little endian, as on AArch64.
\<close>

type_synonym address = "64 word"
type_synonym memory = "address \<Rightarrow> 8 word"

definition load32 :: "memory \<Rightarrow> address \<Rightarrow> 32 word" where
  "load32 m a = ucast (m a) OR push_bit 8 (ucast (m (a + 1))) OR
     push_bit 16 (ucast (m (a + 2))) OR push_bit 24 (ucast (m (a + 3)))"

definition store32 :: "memory \<Rightarrow> address \<Rightarrow> 32 word \<Rightarrow> memory" where
  "store32 m a v = m(a := ucast v, a + 1 := ucast (drop_bit 8 v),
     a + 2 := ucast (drop_bit 16 v), a + 3 := ucast (drop_bit 24 v))"

definition load64 :: "memory \<Rightarrow> address \<Rightarrow> 64 word" where
  "load64 m a = ucast (load32 m a) OR push_bit 32 (ucast (load32 m (a + 4)))"

definition store64 :: "memory \<Rightarrow> address \<Rightarrow> 64 word \<Rightarrow> memory" where
  "store64 m a v = store32 (store32 m a (ucast v)) (a + 4) (ucast (drop_bit 32 v))"

text \<open>
  What an operation does besides changing memory is recorded, in program order, in a
  trace: every store with its address and size in bytes, the release fence of
  \<^verbatim>\<open>OrderAccess::release\<close>, every instruction-cache invalidation with its range, every
  call of \<^verbatim>\<open>MacroAssembler::pd_patch_instruction\<close> and every \<^verbatim>\<open>CodeCache::find_blob\<close>.
\<close>

datatype event =
    Store address nat
  | Release
  | ICacheInvalidate address nat
  | PatchInstruction address address
  | FindBlob address

text \<open>
  \<open>AssertionFailure\<close> is a failed \<^verbatim>\<open>assert\<close> of a build with \<^verbatim>\<open>ASSERT\<close> defined,
  \<open>GuaranteeFailure\<close> a failed \<^verbatim>\<open>guarantee\<close> (checked in every build),
  \<open>NullDereference\<close> a member access through \<^verbatim>\<open>nullptr\<close>, and \<open>UndefinedBehaviour\<close>
  a product build running past a condition that only an \<^verbatim>\<open>assert\<close> checks and that the
  following code relies on.
\<close>

datatype error = AssertionFailure | GuaranteeFailure | NullDereference | UndefinedBehaviour

record machine =
  mem :: memory
  trace :: "event list"

definition write32 :: "machine \<Rightarrow> address \<Rightarrow> 32 word \<Rightarrow> machine" where
  "write32 s a v = s\<lparr>mem := store32 (mem s) a v, trace := trace s @ [Store a 4]\<rparr>"

definition write64 :: "machine \<Rightarrow> address \<Rightarrow> 64 word \<Rightarrow> machine" where
  "write64 s a v = s\<lparr>mem := store64 (mem s) a v, trace := trace s @ [Store a 8]\<rparr>"


definition ICache_invalidate_range :: "machine \<Rightarrow> address \<Rightarrow> nat \<Rightarrow> machine" where
  "ICache_invalidate_range s a n = s\<lparr>trace := trace s @ [ICacheInvalidate a n]\<rparr>"

definition bind_error :: "error + 'a \<Rightarrow> ('a \<Rightarrow> error + 'b) \<Rightarrow> error + 'b" where
  "bind_error r f = (case r of Inl e \<Rightarrow> Inl e | Inr x \<Rightarrow> f x)"

section \<open>External collaborators\<close>

text \<open>
  The code cache, the nmethod's side tables, the assembler and the locks are not part of
  \<^verbatim>\<open>nativeInst_aarch64.cpp\<close>; the operations take them as parameters.

  A relocation record has the address it describes, its kind, and for the kinds
  \<^verbatim>\<open>relocInfo::oop_type\<close> and \<^verbatim>\<open>relocInfo::metadata_type\<close> the address of the slot that
  \<^verbatim>\<open>oop_addr()\<close> or \<^verbatim>\<open>metadata_addr()\<close> returns.
\<close>

datatype reloc_type = oop_type | metadata_type | other_type

record reloc =
  reloc_addr :: address
  reloc_kind :: reloc_type
  reloc_slot :: address

text \<open>
  An nmethod as this file uses it: \<^verbatim>\<open>nm->stub_contains(a)\<close>,
  \<^verbatim>\<open>trampoline_stub_Relocation::get_trampoline_for(call, nm)\<close> (0 when there is none)
  and the relocation records a \<^verbatim>\<open>RelocIterator\<close> walks, in order.
\<close>

record nmethod =
  stub_contains :: "address \<Rightarrow> bool"
  get_trampoline_for :: "address \<Rightarrow> address"
  relocations :: "reloc list"

datatype code_blob = Nmethod nmethod | OtherBlob

text \<open>
  \<open>ASSERT\<close>: the build defines \<^verbatim>\<open>ASSERT\<close>, so \<^verbatim>\<open>assert\<close> is checked.
  \<open>patching_safe a\<close>: the condition of the first assertion of
  \<^verbatim>\<open>set_destination_mt_safe\<close> (the code cache lock is held, or the VM is at a
  safepoint, or \<^verbatim>\<open>CompiledICLocker::is_safe(a)\<close>).
  \<open>find_blob\<close>: \<^verbatim>\<open>CodeCache::find_blob\<close>.
  \<open>reachable_from_branch_at\<close>: \<^verbatim>\<open>Assembler::reachable_from_branch_at\<close>.
  \<open>target_addr_for_insn\<close>, \<open>target_addr_for_insn_or_null\<close> and
  \<open>pd_patch_instruction\<close>: the decoder and the encoder of \<^verbatim>\<open>MacroAssembler\<close>, which
  read and rewrite the instructions at an address.
\<close>

record env =
  ASSERT :: bool
  patching_safe :: "address \<Rightarrow> bool"
  find_blob :: "address \<Rightarrow> code_blob option"
  reachable_from_branch_at :: "address \<Rightarrow> address \<Rightarrow> bool"
  target_addr_for_insn :: "memory \<Rightarrow> address \<Rightarrow> address"
  target_addr_for_insn_or_null :: "memory \<Rightarrow> address \<Rightarrow> address"
  pd_patch_instruction :: "memory \<Rightarrow> address \<Rightarrow> address \<Rightarrow> memory"

definition CodeCache_find_blob :: "machine \<Rightarrow> address \<Rightarrow> machine" where
  "CodeCache_find_blob s a = s\<lparr>trace := trace s @ [FindBlob a]\<rparr>"

definition MacroAssembler_pd_patch_instruction ::
  "env \<Rightarrow> machine \<Rightarrow> address \<Rightarrow> address \<Rightarrow> machine" where
  "MacroAssembler_pd_patch_instruction env s a target =
     s\<lparr>mem := pd_patch_instruction env (mem s) a target,
       trace := trace s @ [PatchInstruction a target]\<rparr>"

text \<open>
  Modelled from the spec: \<^verbatim>\<open>RelocIterator\<close> is declared in \<^verbatim>\<open>relocInfo.hpp\<close>, which is
  not under src/. Section 6: "an iterator over relocation records overlapping an address
  range"; \<^verbatim>\<open>RelocIterator iter(nm, begin, limit)\<close> yields the records of \<open>nm\<close> whose
  address lies in \<open>[begin, limit)\<close>, in order.
\<close>

definition RelocIterator :: "nmethod \<Rightarrow> address \<Rightarrow> address \<Rightarrow> reloc list" where
  "RelocIterator nm begin_addr limit =
     filter (\<lambda>r. begin_addr \<le> reloc_addr r \<and> reloc_addr r < limit) (relocations nm)"

section \<open>Instruction view\<close>

text \<open>
  Modelled from the spec: the accessors \<^verbatim>\<open>addr_at\<close>, \<^verbatim>\<open>int_at\<close>, \<^verbatim>\<open>uint_at\<close>,
  \<^verbatim>\<open>ptr_at\<close>, \<^verbatim>\<open>set_int_at\<close> and \<^verbatim>\<open>set_ptr_at\<close> of \<^verbatim>\<open>NativeInstruction\<close> are declared
  in \<^verbatim>\<open>nativeInst_aarch64.hpp\<close>, which is not under src/. Section 3: an entity is a
  view "over a code address"; an accessor reads or writes the value of its type at the
  byte offset from that address. \<^verbatim>\<open>instruction_size\<close> is 4 (a "32-bit fixed-width
  value at a 4-byte-aligned address").
\<close>

definition addr_at :: "address \<Rightarrow> address \<Rightarrow> address" where
  "addr_at this offset = this + offset"

definition uint_at :: "machine \<Rightarrow> address \<Rightarrow> address \<Rightarrow> 32 word" where
  "uint_at s this offset = load32 (mem s) (addr_at this offset)"

definition int_at :: "machine \<Rightarrow> address \<Rightarrow> address \<Rightarrow> 32 word" where
  "int_at s this offset = load32 (mem s) (addr_at this offset)"

definition ptr_at :: "machine \<Rightarrow> address \<Rightarrow> address \<Rightarrow> address" where
  "ptr_at s this offset = load64 (mem s) (addr_at this offset)"



definition instruction_size :: address where
  "instruction_size = 4"

text \<open>
  Modelled from the spec: \<^verbatim>\<open>Instruction_aarch64::extract\<close> and
  \<^verbatim>\<open>Instruction_aarch64::patch\<close> are declared in \<^verbatim>\<open>assembler_aarch64.hpp\<close>, which is
  not under src/. Section 9: "a single well-tested field-extraction utility
  parameterized by (high-bit, low-bit)"; section 4.7: \<^verbatim>\<open>patch\<close> "writes the high/low
  halves into the two fixed placeholder instructions' immediate fields in place". The
  field is bits \<open>msb\<close> down to \<open>lsb\<close> of the 32-bit word; \<^verbatim>\<open>patch\<close> refuses (a
  \<^verbatim>\<open>guarantee\<close>) a value that does not fit the field.
\<close>

definition Instruction_aarch64_extract :: "32 word \<Rightarrow> nat \<Rightarrow> nat \<Rightarrow> 32 word" where
  "Instruction_aarch64_extract val msb lsb = drop_bit lsb val AND mask (msb - lsb + 1)"

definition Instruction_aarch64_patch ::
  "machine \<Rightarrow> address \<Rightarrow> nat \<Rightarrow> nat \<Rightarrow> 32 word \<Rightarrow> error + machine" where
  "Instruction_aarch64_patch s a msb lsb val =
     (let nbits = msb - lsb + 1 in
      if \<not> unat val < 2 ^ nbits then Inl GuaranteeFailure
      else
        let field = push_bit lsb (mask nbits);
            target = load32 (mem s) a
        in Inr (write32 s a ((target AND NOT field) OR push_bit lsb val)))"

subsection \<open>Instruction families\<close>

definition is_adrp_at :: "machine \<Rightarrow> address \<Rightarrow> bool" where
  "is_adrp_at s instr =
     (let insn = load32 (mem s) instr in Instruction_aarch64_extract insn 31 24 AND 0b10011111 = 0b10010000)"

definition is_ldr_literal_at :: "machine \<Rightarrow> address \<Rightarrow> bool" where
  "is_ldr_literal_at s instr =
     (let insn = load32 (mem s) instr in Instruction_aarch64_extract insn 29 24 AND 0b011011 = 0b00011000)"

definition is_ldrw_to_zr :: "machine \<Rightarrow> address \<Rightarrow> bool" where
  "is_ldrw_to_zr s instr =
     (let insn = load32 (mem s) instr
      in Instruction_aarch64_extract insn 31 22 = 0b1011100101 \<and> Instruction_aarch64_extract insn 4 0 = 0b11111)"

definition is_safepoint_poll :: "machine \<Rightarrow> address \<Rightarrow> bool" where
  "is_safepoint_poll s this = is_ldrw_to_zr s this"

definition is_movz :: "machine \<Rightarrow> address \<Rightarrow> bool" where
  "is_movz s this = (Instruction_aarch64_extract (int_at s this 0) 30 23 = 0b10100101)"

definition is_movk :: "machine \<Rightarrow> address \<Rightarrow> bool" where
  "is_movk s this = (Instruction_aarch64_extract (int_at s this 0) 30 23 = 0b11100101)"

text \<open>
  Modelled from the spec: \<^verbatim>\<open>NativeInstruction::is_blr\<close> is declared in
  \<^verbatim>\<open>nativeInst_aarch64.hpp\<close>, which is not under src/. Section 4.1 names the family
  "is-branch-register"; the AArch64 encodings of \<^verbatim>\<open>br\<close> and \<^verbatim>\<open>blr\<close> of a register are
  \<^verbatim>\<open>0xd61f0000\<close> and \<^verbatim>\<open>0xd63f0000\<close> with the register number in bits 9 to 5.
\<close>

definition is_blr :: "machine \<Rightarrow> address \<Rightarrow> bool" where
  "is_blr s this = (uint_at s this 0 AND 0xff9ffc1f = 0xd61f0000)"

definition is_general_jump :: "machine \<Rightarrow> address \<Rightarrow> bool" where
  "is_general_jump s this =
     (if is_movz s this then
        let inst1 = addr_at this (instruction_size * 1) in
        if is_movk s inst1 then
          let inst2 = addr_at this (instruction_size * 2) in
          if is_movk s inst2 then
            let inst3 = addr_at this (instruction_size * 3) in
            if is_blr s inst3 then True else False
          else False
        else False
      else False)"

text \<open>
  The instruction families of section 4.1 in the specification's words, as the AArch64
  encodes them, on a single instruction word: move-wide (\<^verbatim>\<open>movz\<close>) and move-wide-keep
  (\<^verbatim>\<open>movk\<close>) have \<^verbatim>\<open>10100101\<close> and \<^verbatim>\<open>11100101\<close> in bits 30 to 23, whatever the
  register width, the shift, the immediate and the register; branch-register
  (\<^verbatim>\<open>br\<close>, \<^verbatim>\<open>blr\<close> and the other two values of bits 22 and 21) has all remaining bits
  but the register number as in \<^verbatim>\<open>0xd61f0000\<close>.
\<close>

definition move_wide :: "32 word \<Rightarrow> bool" where
  "move_wide w = (w AND 0x7f800000 = 0x52800000)"

definition move_wide_keep :: "32 word \<Rightarrow> bool" where
  "move_wide_keep w = (w AND 0x7f800000 = 0x72800000)"

definition branch_register :: "32 word \<Rightarrow> bool" where
  "branch_register w = (w AND 0xff9ffc1f = 0xd61f0000)"

definition is_stop :: "machine \<Rightarrow> address \<Rightarrow> bool" where
  "is_stop s this = (uint_at s this 0 = 0xd4bbd5c1)"

text \<open>
  Modelled from the spec: \<^verbatim>\<open>maybe_cpool_ref\<close> is declared in
  \<^verbatim>\<open>nativeInst_aarch64.hpp\<close>, which is not under src/. Section 4.4: a constant is
  materialized "via a move-wide sequence or an address-of-page + offset sequence, or
  indirectly via a literal-pool reference (load-register-literal instruction ...)"; a
  site may refer to the constant pool when its first instruction is of the
  address-of-page or of the load-register-literal family.
\<close>

definition maybe_cpool_ref :: "machine \<Rightarrow> address \<Rightarrow> bool" where
  "maybe_cpool_ref s instr = (is_adrp_at s instr \<or> is_ldr_literal_at s instr)"

section \<open>Trap instructions\<close>

definition NativeIllegalInstruction_insert :: "machine \<Rightarrow> address \<Rightarrow> machine" where
  "NativeIllegalInstruction_insert s code_pos = write32 s code_pos 0xd4bbd5a1"

definition NativeDeoptInstruction_insert :: "machine \<Rightarrow> address \<Rightarrow> machine" where
  "NativeDeoptInstruction_insert s code_pos =
     (let insn = 0xd4ade001;
          s1 = write32 s code_pos insn
      in ICache_invalidate_range s1 code_pos 4)"

section \<open>Post-call metadata slot\<close>

definition is_movk_to_zr :: "32 word \<Rightarrow> bool" where
  "is_movk_to_zr insn = (insn AND 0xffe0001f = 0xf280001f)"

definition NativePostCallNop_make_deopt :: "machine \<Rightarrow> address \<Rightarrow> machine" where
  "NativePostCallNop_make_deopt s this = NativeDeoptInstruction_insert s (addr_at this 0)"

definition NativePostCallNop_patch ::
  "env \<Rightarrow> machine \<Rightarrow> address \<Rightarrow> 32 word \<Rightarrow> 32 word \<Rightarrow> error + (bool \<times> machine)" where
  "NativePostCallNop_patch env s this oopmap_slot cb_offset =
     (if oopmap_slot AND 0xff \<noteq> oopmap_slot \<or> cb_offset AND 0xffffff \<noteq> cb_offset
      then Inr (False, s)
      else
        let data = push_bit 24 oopmap_slot OR cb_offset;
            insn1 = uint_at s this 4;
            insn2 = uint_at s this 8
        in
        if ASSERT env \<and> \<not> data \<noteq> 0 then Inl AssertionFailure
        else if ASSERT env \<and> \<not> (is_movk_to_zr insn1 \<and> is_movk_to_zr insn2)
        then Inl AssertionFailure
        else
          let lo = data AND 0xffff;
              hi = drop_bit 16 data
          in bind_error (Instruction_aarch64_patch s (addr_at this 4) 20 5 lo) (\<lambda>s1.
             bind_error (Instruction_aarch64_patch s1 (addr_at this 8) 20 5 hi) (\<lambda>s2.
             Inr (True, s2))))"

text \<open>
  The layout the specification gives for the packed value, read back from the site: the
  16-bit immediates (bits 20 to 5) of the instructions at offsets 4 and 8 are the low and
  the high half of a 32-bit value whose bits 31 to 24 are the slot index and whose bits
  23 to 0 are the code offset.
\<close>

definition postcall_layout_decode :: "machine \<Rightarrow> address \<Rightarrow> 32 word \<times> 32 word" where
  "postcall_layout_decode s this =
     (let lo = Instruction_aarch64_extract (uint_at s this 4) 20 5;
          hi = Instruction_aarch64_extract (uint_at s this 8) 20 5;
          data = push_bit 16 hi OR lo
      in (drop_bit 24 data, data AND 0xffffff))"

section \<open>Direct call site and trampoline stub\<close>


definition NativeCall_displacement :: "machine \<Rightarrow> address \<Rightarrow> 32 word" where
  "NativeCall_displacement s this = signed_drop_bit 4 (push_bit 6 (int_at s this 0))"


text \<open>
  Modelled from the spec: \<^verbatim>\<open>is_NativeCallTrampolineStub_at\<close> and the constant
  \<^verbatim>\<open>NativeCallTrampolineStub::data_offset\<close> are declared in
  \<^verbatim>\<open>nativeInst_aarch64.hpp\<close>, which is not under src/. Section 3: a trampoline stub
  is an "immutable instruction prologue + one mutable pointer-sized slot
  ("data_offset" into the stub)". The prologue is \<^verbatim>\<open>ldr xscratch1, L; br xscratch1\<close>
  (the words \<^verbatim>\<open>0x58000048\<close> and \<^verbatim>\<open>0xd61f0100\<close>), and the slot \<^verbatim>\<open>L\<close> follows it at
  byte offset 8.
\<close>

definition is_NativeCallTrampolineStub_at :: "machine \<Rightarrow> address \<Rightarrow> bool" where
  "is_NativeCallTrampolineStub_at s addr =
     (load32 (mem s) addr = 0x58000048 \<and> load32 (mem s) (addr + 4) = 0xd61f0100)"

definition data_offset :: address where
  "data_offset = 8"

definition NativeCallTrampolineStub_destination :: "machine \<Rightarrow> address \<Rightarrow> address" where
  "NativeCallTrampolineStub_destination s this = ptr_at s this data_offset"


text \<open>
  Modelled from the spec: \<^verbatim>\<open>nativeCallTrampolineStub_at\<close> is declared in
  \<^verbatim>\<open>nativeInst_aarch64.hpp\<close>, which is not under src/. It turns an address into the
  view of the trampoline stub there. Section 9: assertion-based invariant checks are kept
  "as explicit precondition checks ... in debug/checked builds"; in a build with
  assertions the helper asserts that the address holds the stub prologue, in a build
  without them it is the plain cast.
\<close>

definition nativeCallTrampolineStub_at :: "env \<Rightarrow> machine \<Rightarrow> address \<Rightarrow> error + address" where
  "nativeCallTrampolineStub_at env s addr =
     (if ASSERT env \<and> \<not> is_NativeCallTrampolineStub_at s addr then Inl AssertionFailure
      else Inr addr)"

text \<open>
  The three lines \<^verbatim>\<open>cb = CodeCache::find_blob(addr); assert(cb != nullptr &&
  cb->is_nmethod()); nm = cb->as_nmethod()\<close>: with assertions the blob must be an
  nmethod; without them a null blob is dereferenced by the first use of \<open>nm\<close> and any
  other blob is read as if it were an nmethod.
\<close>

definition as_nmethod :: "env \<Rightarrow> code_blob option \<Rightarrow> error + nmethod" where
  "as_nmethod env cb =
     (case cb of
        Some (Nmethod nm) \<Rightarrow> Inr nm
      | Some OtherBlob \<Rightarrow> Inl (if ASSERT env then AssertionFailure else UndefinedBehaviour)
      | None \<Rightarrow> Inl (if ASSERT env then AssertionFailure else NullDereference))"

definition NativeCall_destination ::
  "env \<Rightarrow> machine \<Rightarrow> address \<Rightarrow> error + (address \<times> machine)" where
  "NativeCall_destination env s this =
     (let addr = this;
          destination = addr + scast (NativeCall_displacement s this)
      in
      if destination = addr then Inr (destination, s)
      else
        let s1 = CodeCache_find_blob s addr
        in bind_error (as_nmethod env (find_blob env addr)) (\<lambda>nm.
             if stub_contains nm destination \<and> is_NativeCallTrampolineStub_at s1 destination
             then
               let trampoline_stub_addr = destination
               in bind_error (nativeCallTrampolineStub_at env s1 trampoline_stub_addr)
                    (\<lambda>stub. Inr (NativeCallTrampolineStub_destination s1 stub, s1))
             else Inr (destination, s1)))"





section \<open>Constant-load site\<close>

text \<open>
  Modelled from the spec: \<^verbatim>\<open>NativeMovConstReg::instruction_size\<close> and
  \<^verbatim>\<open>NativeMovConstReg::next_instruction_address\<close> are declared in
  \<^verbatim>\<open>nativeInst_aarch64.hpp\<close>, which is not under src/. Section 2: a constant-load site
  is "a 1- or N-instruction template"; section 4.4: the constant is materialized "via a
  move-wide sequence or an address-of-page + offset sequence" or by a
  "load-register-literal instruction". The move-wide sequence is three instructions
  (\<^verbatim>\<open>movz, movk, movk\<close>), which is the site's \<^verbatim>\<open>instruction_size\<close>; address-of-page and
  offset are two instructions, load-register-literal is one. For any other first
  instruction \<^verbatim>\<open>next_instruction_address\<close> fails an assertion and returns null.
\<close>

definition NativeMovConstReg_instruction_size :: address where
  "NativeMovConstReg_instruction_size = 3 * 4"

definition NativeMovConstReg_next_instruction_address ::
  "env \<Rightarrow> machine \<Rightarrow> address \<Rightarrow> error + address" where
  "NativeMovConstReg_next_instruction_address env s this =
     (if is_movz s this then Inr (addr_at this NativeMovConstReg_instruction_size)
      else if is_adrp_at s this then Inr (addr_at this (2 * 4))
      else if is_ldr_literal_at s this then Inr (addr_at this 4)
      else if ASSERT env then Inl AssertionFailure
      else Inr 0)"

text \<open>
  \<^verbatim>\<open>NativeMovConstReg::verify\<close>: \<open>False\<close> is the call of \<^verbatim>\<open>fatal\<close>.
\<close>

definition NativeMovConstReg_verify :: "machine \<Rightarrow> address \<Rightarrow> bool" where
  "NativeMovConstReg_verify s this =
     (is_movz s this \<or> is_adrp_at s this \<or> is_ldr_literal_at s this)"

definition NativeMovConstReg_data :: "env \<Rightarrow> machine \<Rightarrow> address \<Rightarrow> 64 word" where
  "NativeMovConstReg_data env s this =
     (let addr = target_addr_for_insn env (mem s) this
      in if maybe_cpool_ref s this then load64 (mem s) addr else addr)"

text \<open>
  The loop over the relocation records: the first record of kind \<open>oop_type\<close> or
  \<open>metadata_type\<close> has its slot overwritten and ends the loop (\<^verbatim>\<open>break\<close>).
\<close>

fun replace_reloc_slot :: "machine \<Rightarrow> reloc list \<Rightarrow> 64 word \<Rightarrow> machine" where
  "replace_reloc_slot s [] x = s"
| "replace_reloc_slot s (r # rs) x =
     (if reloc_kind r = oop_type then write64 s (reloc_slot r) x
      else if reloc_kind r = metadata_type then write64 s (reloc_slot r) x
      else replace_reloc_slot s rs x)"

text \<open>
  \<^verbatim>\<open>RelocIterator iter(nm, begin, limit)\<close> with a null \<open>limit\<close> runs to the end of the
  nmethod's records.
\<close>

definition reloc_range :: "nmethod \<Rightarrow> address \<Rightarrow> address \<Rightarrow> reloc list" where
  "reloc_range nm begin_addr limit =
     (if limit = 0 then filter (\<lambda>r. begin_addr \<le> reloc_addr r) (relocations nm)
      else RelocIterator nm begin_addr limit)"

definition NativeMovConstReg_set_data ::
  "env \<Rightarrow> machine \<Rightarrow> address \<Rightarrow> 64 word \<Rightarrow> error + machine" where
  "NativeMovConstReg_set_data env s this x =
     (let s1 =
        (if maybe_cpool_ref s this then
           let addr = target_addr_for_insn env (mem s) this in write64 s addr x
         else
           ICache_invalidate_range (MacroAssembler_pd_patch_instruction env s this x)
             this (unat NativeMovConstReg_instruction_size));
          s2 = CodeCache_find_blob s1 this
      in case find_blob env this of
           None \<Rightarrow> Inl NullDereference
         | Some OtherBlob \<Rightarrow> Inr s2
         | Some (Nmethod nm) \<Rightarrow>
             bind_error (NativeMovConstReg_next_instruction_address env s2 this) (\<lambda>limit.
               Inr (replace_reloc_slot s2 (reloc_range nm this limit) x)))"

text \<open>
  The specification's words for the record the loop updates: "the first matching
  record" among those of kind object reference or type-metadata reference.
\<close>

definition first_reference_reloc :: "reloc list \<Rightarrow> reloc option" where
  "first_reference_reloc rs =
     find (\<lambda>r. reloc_kind r = oop_type \<or> reloc_kind r = metadata_type) rs"

section \<open>Memory-access site\<close>

text \<open>
  \<^verbatim>\<open>*addr\<close> in \<^verbatim>\<open>offset\<close> reads through an \<^verbatim>\<open>address\<close>, that is one unsigned byte,
  which is then widened to \<^verbatim>\<open>int\<close>; \<^verbatim>\<open>set_offset\<close> stores through an \<^verbatim>\<open>int64_t*\<close>,
  that is the sign-extended value in eight bytes. The site's \<^verbatim>\<open>instruction_size\<close> is 4.
\<close>

definition NativeMovRegMem_offset :: "env \<Rightarrow> machine \<Rightarrow> address \<Rightarrow> 32 word" where
  "NativeMovRegMem_offset env s this =
     (let pc = this;
          insn = load32 (mem s) pc
      in if Instruction_aarch64_extract insn 28 24 = 0b10000 then
           let addr = target_addr_for_insn env (mem s) pc in ucast (mem s addr)
         else ucast (target_addr_for_insn env (mem s) this))"

definition NativeMovRegMem_set_offset :: "env \<Rightarrow> machine \<Rightarrow> address \<Rightarrow> 32 word \<Rightarrow> machine" where
  "NativeMovRegMem_set_offset env s this x =
     (let pc = this
      in if maybe_cpool_ref s pc then
           let addr = target_addr_for_insn env (mem s) pc in write64 s addr (scast x)
         else
           ICache_invalidate_range (MacroAssembler_pd_patch_instruction env s pc (scast x))
             this (unat instruction_size))"

section \<open>Jump sites\<close>

definition NativeJump_jump_destination :: "env \<Rightarrow> machine \<Rightarrow> address \<Rightarrow> address" where
  "NativeJump_jump_destination env s this =
     (let dest = target_addr_for_insn_or_null env (mem s) this
      in if dest = this \<or> dest = 0 then - 1 else dest)"

definition NativeJump_set_jump_destination ::
  "env \<Rightarrow> machine \<Rightarrow> address \<Rightarrow> address \<Rightarrow> machine" where
  "NativeJump_set_jump_destination env s this dest =
     (let dest1 = (if dest = - 1 then this else dest)
      in ICache_invalidate_range (MacroAssembler_pd_patch_instruction env s this dest1)
           this (unat instruction_size))"

text \<open>
  Modelled from the spec: in the two functions of the general jump,
  \<^verbatim>\<open>nativeMovConstReg_at(instruction_address())\<close> is taken as the view of the constant-load site at the jump's own address. The helper is
  declared in \<^verbatim>\<open>nativeInst_aarch64.hpp\<close>, which is not under src/; the check of the
  site that a build with assertions makes there is that of \<^verbatim>\<open>NativeMovConstReg::verify\<close>,
  which holds wherever the site is a general jump, and is not repeated in the two
  definitions.
\<close>

definition NativeGeneralJump_jump_destination :: "env \<Rightarrow> machine \<Rightarrow> address \<Rightarrow> address" where
  "NativeGeneralJump_jump_destination env s this =
     (let dest = NativeMovConstReg_data env s this
      in if dest = this \<or> dest = 0 then - 1 else dest)"

definition NativeGeneralJump_set_jump_destination ::
  "env \<Rightarrow> machine \<Rightarrow> address \<Rightarrow> address \<Rightarrow> error + machine" where
  "NativeGeneralJump_set_jump_destination env s this dest =
     (let dest1 = (if dest = - 1 then this else dest)
      in NativeMovConstReg_set_data env s this dest1)"

section \<open>Byte ranges\<close>

text \<open>
  \<open>separate a n b k\<close>: the \<open>n\<close> bytes at \<open>a\<close> and the \<open>k\<close> bytes at \<open>b\<close> do not
  overlap (neither range starts inside the other).
\<close>

definition separate :: "address \<Rightarrow> nat \<Rightarrow> address \<Rightarrow> nat \<Rightarrow> bool" where
  "separate a n b k = (n \<le> unat (b - a) \<and> k \<le> unat (a - b))"

section \<open>Example configurations\<close>

text \<open>
  A small code cache used to run the operations on concrete inputs: one nmethod that
  occupies \<open>[0x1000, 0x3000)\<close> with its stub section at \<open>[0x2000, 0x3000)\<close>, a
  trampoline stub reserved at \<open>0x2000\<close> for the call at \<open>0x1000\<close>, and three
  relocation records. The example encoder keeps the target of a site in the eight bytes
  that follow the site's first instruction word, and a branch reaches 128M either way.
\<close>

definition example_nmethod :: nmethod where
  "example_nmethod =
     \<lparr>stub_contains = (\<lambda>a. 0x2000 \<le> a \<and> a < 0x3000),
      get_trampoline_for = (\<lambda>a. if a = 0x1000 then 0x2000 else 0),
      relocations =
        [\<lparr>reloc_addr = 0x1100, reloc_kind = other_type, reloc_slot = 0\<rparr>,
         \<lparr>reloc_addr = 0x1100, reloc_kind = oop_type, reloc_slot = 0x4000\<rparr>,
         \<lparr>reloc_addr = 0x1104, reloc_kind = metadata_type, reloc_slot = 0x4008\<rparr>]\<rparr>"

definition example_env :: "bool \<Rightarrow> env" where
  "example_env checked =
     \<lparr>ASSERT = checked,
      patching_safe = (\<lambda>a. True),
      find_blob = (\<lambda>a. if 0x1000 \<le> a \<and> a < 0x3000 then Some (Nmethod example_nmethod)
                         else None),
      reachable_from_branch_at =
        (\<lambda>branch target. - (2 ^ 27) \<le> sint (target - branch) \<and> sint (target - branch) < 2 ^ 27),
      target_addr_for_insn = (\<lambda>m a. load64 m (a + 4)),
      target_addr_for_insn_or_null = (\<lambda>m a. load64 m (a + 4)),
      pd_patch_instruction = (\<lambda>m a target. store64 m (a + 4) target)\<rparr>"

text \<open>A post-call site at \<open>0x1000\<close> whose two placeholders are \<^verbatim>\<open>movk zr, #0\<close>.\<close>

definition postcall_state :: machine where
  "postcall_state =
     \<lparr>mem = store32 (store32 (\<lambda>a. 0) 0x1004 0xf280001f) 0x1008 0xf280001f, trace = []\<rparr>"

text \<open>
  A machine with the call word \<open>w\<close> at \<open>0x1000\<close> and a trampoline stub at
  \<open>0x2000\<close> whose destination slot holds \<open>0x7000000000\<close>.
\<close>

definition call_state :: "32 word \<Rightarrow> machine" where
  "call_state w =
     \<lparr>mem = store64 (store32 (store32 (store32 (\<lambda>a. 0) 0x1000 w) 0x2000 0x58000048)
              0x2004 0xd61f0100) 0x2008 0x7000000000,
      trace = []\<rparr>"

text \<open>
  A memory-access site at \<open>0x1200\<close> whose instruction is \<^verbatim>\<open>adrp x0\<close> and whose target,
  for the example encoder, is the pool slot at \<open>0x5000\<close>.
\<close>

definition adrp_state :: machine where
  "adrp_state =
     \<lparr>mem = store64 (store32 (\<lambda>a. 0) 0x1200 0x90000000) 0x1204 0x5000, trace = []\<rparr>"

text \<open>
  What the theorems about a constant-load site ask of the external decoder:
  \<open>site_decoder env a n\<close> says that the target \<^verbatim>\<open>target_addr_for_insn\<close> computes for the
  site at \<open>a\<close> depends only on the \<open>n\<close> bytes of the site.
\<close>

definition site_decoder :: "env \<Rightarrow> address \<Rightarrow> nat \<Rightarrow> bool" where
  "site_decoder env a n =
     (\<forall>m m'. (\<forall>i<n. m (a + of_nat i) = m' (a + of_nat i)) \<longrightarrow>
        target_addr_for_insn env m a = target_addr_for_insn env m' a)"

text \<open>
  The record \<^verbatim>\<open>set_data\<close> updates, in the specification's words: the first record of
  kind object reference or type-metadata reference among those overlapping the
  instruction, when the owning blob is an nmethod; and the store that goes with it.
\<close>

definition updated_reloc :: "code_blob \<Rightarrow> address \<Rightarrow> address \<Rightarrow> reloc option" where
  "updated_reloc b begin_addr limit =
     (case b of
        OtherBlob \<Rightarrow> None
      | Nmethod nm \<Rightarrow> first_reference_reloc (reloc_range nm begin_addr limit))"

definition reference_store :: "code_blob \<Rightarrow> address \<Rightarrow> address \<Rightarrow> event list" where
  "reference_store b begin_addr limit =
     (case updated_reloc b begin_addr limit of
        None \<Rightarrow> []
      | Some r \<Rightarrow> [Store (reloc_slot r) 8])"

text \<open>A constant-load site at \<open>0x1100\<close> whose first instruction is \<^verbatim>\<open>movz x0, #0\<close>.\<close>

definition movz_state :: machine where
  "movz_state = \<lparr>mem = store32 (\<lambda>a. 0) 0x1100 0xd2800000, trace = []\<rparr>"

text \<open>
  A general jump at \<open>0x1300\<close>: \<^verbatim>\<open>movz x8, #0; movk x8, #0, lsl #16;
  movk x8, #0, lsl #32; br x8\<close>.
\<close>

definition general_jump_state :: machine where
  "general_jump_state =
     \<lparr>mem = store32 (store32 (store32 (store32 (\<lambda>a. 0) 0x1300 0xd2800008)
              0x1304 0xf2a00008) 0x1308 0xf2c00008) 0x130c 0xd61f0100,
      trace = []\<rparr>"




section \<open>Loads and stores\<close>

lemma bytes_of_word32:
  "(ucast (ucast v :: 8 word) OR push_bit 8 (ucast (ucast (drop_bit 8 v) :: 8 word)) OR
     push_bit 16 (ucast (ucast (drop_bit 16 v) :: 8 word)) OR
     push_bit 24 (ucast (ucast (drop_bit 24 v) :: 8 word)) :: 32 word) = v" (is "?l = v")
proof (rule bit_word_eqI)
  fix n :: nat
  assume "n < LENGTH(32)"
  then consider "n < 8" | "8 \<le> n \<and> n < 16" | "16 \<le> n \<and> n < 24" | "24 \<le> n \<and> n < 32"
    by fastforce
  then show "bit ?l n = bit v n"
    by cases (auto simp add: bit_simps)
qed

lemma load32_store32_same: "load32 (store32 m a v) a = v"
  using bytes_of_word32 [of v] by (simp add: load32_def store32_def)

lemma unat_shift:
  fixes d :: "64 word"
  assumes "i < unat (- d)"
  shows "unat (d + of_nat i) = unat d + i"
proof -
  define N :: nat where "N = 2 ^ LENGTH(64)"
  have e: "unat (d + (- d)) = (if unat d + unat (- d) < N then unat d + unat (- d)
          else unat d + unat (- d) - N)"
    unfolding N_def by (rule unat_plus_if')
  have z: "unat (d + (- d)) = 0" by simp
  have b: "unat (- d) < N" unfolding N_def by (rule unsigned_less)
  have s: "unat d + unat (- d) = N"
    using e z assms b by (simp split: if_splits)
  have i: "i < N" using assms b by simp
  have "unat (of_nat i :: 64 word) = i"
    using i unfolding N_def by (simp only: unat_of_nat) simp
  moreover have "unat d + i < N" using s assms by simp
  ultimately show ?thesis
    using unat_add_lem [of d "of_nat i"] unfolding N_def by simp
qed

lemma separate_byte:
  assumes "separate a n b k" "i < k"
  shows "n \<le> unat (b + of_nat i - a)"
proof -
  have h: "n \<le> unat (b - a)" "i < unat (- (b - a))"
    using assms by (simp_all add: separate_def)
  have eq: "b + of_nat i - a = (b - a) + of_nat i" by simp
  show ?thesis unfolding eq using unat_shift [OF h(2)] h(1) by simp
qed


lemma separate_mono: "separate a n b k \<Longrightarrow> n' \<le> n \<Longrightarrow> k' \<le> k \<Longrightarrow> separate a n' b k'"
  by (simp add: separate_def)

lemma store32_other: "4 \<le> unat (x - a) \<Longrightarrow> store32 m a v x = m x"
  by (auto simp add: store32_def)

lemma store64_other:
  assumes "8 \<le> unat (x - a)"
  shows "store64 m a v x = m x"
proof -
  have "(4 :: 64 word) \<le> x - a"
    using assms by (simp add: word_le_nat_alt)
  then have "unat (x - a - 4) = unat (x - a) - unat (4 :: 64 word)"
    by (rule unat_sub)
  then have "4 \<le> unat (x - a - 4)" using assms by simp
  moreover have eq: "x - (a + 4) = x - a - 4" by simp
  ultimately have "4 \<le> unat (x - (a + 4))" by (simp only: eq)
  moreover have "4 \<le> unat (x - a)" using assms by simp
  ultimately show ?thesis by (simp add: store64_def store32_other)
qed

lemma load32_outside:
  assumes "\<And>i. i < 4 \<Longrightarrow> m' (b + of_nat i) = m (b + of_nat i)"
  shows "load32 m' b = load32 m b"
  using assms [of 0] assms [of 1] assms [of 2] assms [of 3] by (simp add: load32_def)

lemma load64_outside:
  assumes "\<And>i. i < 8 \<Longrightarrow> m' (b + of_nat i) = m (b + of_nat i)"
  shows "load64 m' b = load64 m b"
proof -
  have "load32 m' b = load32 m b"
    using assms by (intro load32_outside) simp
  moreover have "load32 m' (b + 4) = load32 m (b + 4)"
  proof (rule load32_outside)
    fix i :: nat assume "i < 4"
    then show "m' (b + 4 + of_nat i) = m (b + 4 + of_nat i)"
      using assms [of "4 + i"] by (simp add: add.assoc)
  qed
  ultimately show ?thesis by (simp add: load64_def)
qed

lemma load32_store32_other:
  "separate a 4 b 4 \<Longrightarrow> load32 (store32 m a v) b = load32 m b"
  by (rule load32_outside) (simp add: store32_other separate_byte)

lemma load32_store64_other:
  "separate a 8 b 4 \<Longrightarrow> load32 (store64 m a v) b = load32 m b"
  by (rule load32_outside) (simp add: store64_other separate_byte)

lemma load64_store32_other:
  "separate a 4 b 8 \<Longrightarrow> load64 (store32 m a v) b = load64 m b"
  by (rule load64_outside) (simp add: store32_other separate_byte)

lemma load64_store64_other:
  "separate a 8 b 8 \<Longrightarrow> load64 (store64 m a v) b = load64 m b"
  by (rule load64_outside) (simp add: store64_other separate_byte)

lemma separate_next:
  "separate (a + 4) 4 (a + 8) 4" "separate (a + 8) 4 (a + 4) 4"
  "separate a 4 (a + 4) 4" "separate (a + 4) 4 a 4"
  by (simp_all add: separate_def)

lemma load64_store64_same: "load64 (store64 m a v) a = v"
proof -
  have "(ucast (ucast v :: 32 word) OR
         push_bit 32 (ucast (ucast (drop_bit 32 v) :: 32 word)) :: 64 word) = v"
    by (rule bit_word_eqI) (auto simp add: bit_simps)
  then show ?thesis
    by (simp add: load64_def store64_def load32_store32_same load32_store32_other
        separate_next)
qed

section \<open>Bit fields\<close>

lemma fits_range:
  fixes w :: "32 word"
  assumes "n < 31"
  shows "(w AND mask n = w) = (0 \<le> sint w \<and> sint w < 2 ^ n)"
proof -
  have p: "(2::int) ^ n < 2 ^ 31" by (rule power_strict_increasing) (use assms in simp_all)
  have a: "(w AND mask n = w) = (take_bit n w = w)"
    by (simp add: take_bit_eq_mask)
  have b: "(take_bit n w = w) = (uint w < 2 ^ n)"
    by (simp add: word_uint_eq_iff unsigned_take_bit_eq take_bit_int_eq_self_iff)
  have c: "sint w = uint w" if "uint w < 2 ^ n"
  proof -
    have "- (2 ^ 31) \<le> uint w \<and> uint w < 2 ^ 31"
      using p that uint_ge_0 [of w] by linarith
    then show ?thesis
      by (simp add: sint_uint signed_take_bit_int_eq_self_iff)
  qed
  have d: "0 \<le> sint w \<Longrightarrow> sint w < 2 ^ n \<Longrightarrow> uint w = sint w"
    using p by (simp add: uint_sint take_bit_int_eq_self)
  show ?thesis unfolding a b using c d by (smt (verit) uint_ge_0)
qed

lemma slot_range: "(w AND 0xff = w) = (0 \<le> sint w \<and> sint w \<le> 255)" for w :: "32 word"
  using fits_range [of 8 w] by (auto simp add: mask_numeral)

lemma offset_range:
  "(w AND 0xffffff = w) = (0 \<le> sint w \<and> sint w \<le> 0xffffff)" for w :: "32 word"
  using fits_range [of 24 w] by (auto simp add: mask_numeral)

lemma extract_patched:
  fixes w v :: "32 word"
  assumes "v AND mask 16 = v"
  shows "Instruction_aarch64_extract
           ((w AND NOT (push_bit 5 (mask 16))) OR push_bit 5 v) 20 5 = v"
proof -
  have "drop_bit 5 ((w AND NOT (push_bit 5 (mask 16))) OR push_bit 5 v) AND mask 16 =
        v AND mask 16"
    by (rule bit_word_eqI) (auto simp add: bit_simps)
  then show ?thesis using assms by (simp add: Instruction_aarch64_extract_def)
qed

lemma halves_join: "push_bit 16 (drop_bit 16 d) OR (d AND 0xffff) = d" for d :: "32 word"
proof -
  have "push_bit 16 (drop_bit 16 d) OR (d AND mask 16) = d"
    by (rule bit_word_eqI) (auto simp add: bit_simps)
  then show ?thesis by (simp add: mask_numeral)
qed

lemma fields_split:
  fixes slot off :: "32 word"
  assumes "slot AND 0xff = slot" "off AND 0xffffff = off"
  shows "drop_bit 24 (push_bit 24 slot OR off) = slot"
    and "(push_bit 24 slot OR off) AND 0xffffff = off"
proof -
  have s: "slot AND mask 8 = slot" and f: "off AND mask 24 = off"
    using assms by (simp_all add: mask_numeral)
  have "drop_bit 24 (push_bit 24 (slot AND mask 8) OR (off AND mask 24)) = slot AND mask 8"
    by (rule bit_word_eqI) (auto simp add: bit_simps)
  then show "drop_bit 24 (push_bit 24 slot OR off) = slot" using s f by simp
  have "(push_bit 24 slot OR (off AND mask 24)) AND mask 24 = off AND mask 24"
    by (rule bit_word_eqI) (auto simp add: bit_simps)
  then show "(push_bit 24 slot OR off) AND 0xffffff = off" using f by (simp add: mask_numeral)
qed

lemma data_zero:
  fixes slot off :: "32 word"
  assumes "slot AND 0xff = slot" "off AND 0xffffff = off"
  shows "(push_bit 24 slot OR off = 0) = (slot = 0 \<and> off = 0)"
  using fields_split [OF assms]
  by (metis drop_bit_of_0 or.right_neutral push_bit_of_0 zero_and_eq)

lemma lo_fits: "unat (d AND 0xffff) < 2 ^ 16" for d :: "32 word"
proof -
  have "unat (take_bit 16 d) < 2 ^ 16"
    using take_bit_nat_less_exp [of 16 "unat d"] by (simp add: unsigned_take_bit_eq)
  then show ?thesis by (simp add: take_bit_eq_mask mask_numeral)
qed

lemma hi_fits: "unat (drop_bit 16 d) < 2 ^ 16" for d :: "32 word"
proof -
  have "unat (drop_bit 16 d) = drop_bit 16 (unat d)"
    by (rule unat_drop_bit_eq)
  then have "unat (drop_bit 16 d) = unat d div 2 ^ 16"
    by (simp only: drop_bit_eq_div)
  moreover have "unat d < 2 ^ 32" using unsigned_less [of d] by simp
  ultimately show ?thesis by simp
qed

lemma mask16_lo: "(d AND 0xffff) AND mask 16 = d AND 0xffff" for d :: "32 word"
  by (simp add: mask_numeral)

lemma mask16_hi: "drop_bit 16 d AND mask 16 = drop_bit 16 d" for d :: "32 word"
  by (rule bit_word_eqI) (auto simp add: bit_simps dest: bit_imp_le_length)

lemma load32_write32_same: "load32 (mem (write32 s a v)) a = v"
  by (simp add: write32_def load32_store32_same)

lemma load32_write32_next:
  "load32 (mem (write32 s (a + 4) v)) (a + 8) = load32 (mem s) (a + 8)"
  by (simp add: write32_def load32_store32_other separate_next)

lemma load32_write32_prev:
  "load32 (mem (write32 s (a + 8) v)) (a + 4) = load32 (mem s) (a + 4)"
  by (simp add: write32_def load32_store32_other separate_next)

section \<open>Post-call metadata: encoding\<close>

text \<open>
  C10. Whenever the slot index is outside \<open>[0, 255]\<close> or the code offset is outside
  \<open>[0, 0xFFFFFF]\<close> (both read as signed 32-bit integers),
  \<^verbatim>\<open>NativePostCallNop::patch\<close> returns false and leaves the machine, memory and
  trace, exactly as it was; this holds in every build.
\<close>

theorem patch_out_of_range:
  assumes "\<not> (0 \<le> sint oopmap_slot \<and> sint oopmap_slot \<le> 255 \<and>
              0 \<le> sint cb_offset \<and> sint cb_offset \<le> 0xFFFFFF)"
  shows "NativePostCallNop_patch env s this oopmap_slot cb_offset = Inr (False, s)"
  using assms by (auto simp add: NativePostCallNop_patch_def slot_range offset_range)

theorem patch_out_of_range_witness:
  "NativePostCallNop_patch (example_env True) postcall_state 0x1000 256 0 =
     Inr (False, postcall_state) \<and>
   NativePostCallNop_patch (example_env True) postcall_state 0x1000 0 0x1000000 =
     Inr (False, postcall_state)"
  using patch_out_of_range [of 256 0 "example_env True" postcall_state "0x1000"]
    patch_out_of_range [of 0 "0x1000000" "example_env True" postcall_state "0x1000"]
  by simp

text \<open>
  C3, as the code has it. For every slot index in \<open>[0, 255]\<close> and every code offset in
  \<open>[0, 0xFFFFFF]\<close>, \<^verbatim>\<open>NativePostCallNop::patch\<close> returns true and the immediates of
  the two placeholder instructions decode back to the pair under the layout bits 31 to
  24 = slot, bits 23 to 0 = offset, provided that, in a build with assertions, the pair
  is not (0, 0) and both placeholders are \<^verbatim>\<open>movk\<close> to the zero register. A build
  without assertions needs no proviso.
\<close>

theorem patch_in_range:
  assumes r: "0 \<le> sint oopmap_slot" "sint oopmap_slot \<le> 255"
             "0 \<le> sint cb_offset" "sint cb_offset \<le> 0xFFFFFF"
    and a: "ASSERT env \<longrightarrow> \<not> (oopmap_slot = 0 \<and> cb_offset = 0) \<and>
              is_movk_to_zr (uint_at s this 4) \<and> is_movk_to_zr (uint_at s this 8)"
  shows "\<exists>s'. NativePostCallNop_patch env s this oopmap_slot cb_offset = Inr (True, s') \<and>
              postcall_layout_decode s' this = (oopmap_slot, cb_offset)"
proof -
  have s: "oopmap_slot AND 0xff = oopmap_slot" and f: "cb_offset AND 0xffffff = cb_offset"
    using r by (simp_all add: slot_range offset_range)
  define data where "data = push_bit 24 oopmap_slot OR cb_offset"
  define w1 where "w1 = (load32 (mem s) (this + 4) AND NOT (push_bit 5 (mask 16))) OR
     push_bit 5 (data AND 0xffff)"
  define s1 where "s1 = write32 s (this + 4) w1"
  define w2 where "w2 = (load32 (mem s) (this + 8) AND NOT (push_bit 5 (mask 16))) OR
     push_bit 5 (drop_bit 16 data)"
  define s2 where "s2 = write32 s1 (this + 8) w2"
  have p1: "Instruction_aarch64_patch s (addr_at this 4) 20 5 (data AND 0xffff) = Inr s1"
    using lo_fits [of data]
    by (simp add: Instruction_aarch64_patch_def addr_at_def s1_def w1_def)
  have p2: "Instruction_aarch64_patch s1 (addr_at this 8) 20 5 (drop_bit 16 data) = Inr s2"
    using hi_fits [of data]
    by (simp add: Instruction_aarch64_patch_def addr_at_def s2_def w2_def s1_def
        load32_write32_next)
  have nz: "ASSERT env \<Longrightarrow> data \<noteq> 0"
    using a data_zero [OF s f] by (simp add: data_def)
  have run: "NativePostCallNop_patch env s this oopmap_slot cb_offset = Inr (True, s2)"
    using s f a nz p1 p2
    by (simp add: NativePostCallNop_patch_def Let_def bind_error_def flip: data_def)
  have r1: "uint_at s2 this 4 = w1"
    by (simp add: uint_at_def addr_at_def s2_def s1_def load32_write32_prev
        load32_write32_same)
  have r2: "uint_at s2 this 8 = w2"
    by (simp add: uint_at_def addr_at_def s2_def load32_write32_same)
  have e1: "Instruction_aarch64_extract w1 20 5 = data AND 0xffff"
    unfolding w1_def by (rule extract_patched) (rule mask16_lo)
  have e2: "Instruction_aarch64_extract w2 20 5 = drop_bit 16 data"
    unfolding w2_def by (rule extract_patched) (rule mask16_hi)
  have "postcall_layout_decode s2 this = (drop_bit 24 data, data AND 0xffffff)"
    by (simp only: postcall_layout_decode_def r1 r2 e1 e2 Let_def halves_join)
  then have "postcall_layout_decode s2 this = (oopmap_slot, cb_offset)"
    using fields_split [OF s f] by (simp add: data_def)
  with run show ?thesis by blast
qed

lemma postcall_state_placeholders:
  "uint_at postcall_state 0x1000 4 = 0xf280001f"
  "uint_at postcall_state 0x1000 8 = 0xf280001f"
  by (simp_all add: uint_at_def addr_at_def postcall_state_def load32_store32_same
      load32_store32_other separate_def)

theorem patch_in_range_witness:
  "\<exists>s'. NativePostCallNop_patch (example_env True) postcall_state 0x1000 3 0x123456 =
           Inr (True, s') \<and>
        postcall_layout_decode s' 0x1000 = (3, 0x123456)"
  using patch_in_range [of 3 "0x123456" "example_env True" postcall_state "0x1000"]
  by (simp add: postcall_state_placeholders is_movk_to_zr_def)

theorem patch_zero_pair_asserts:
  "NativePostCallNop_patch (example_env True) postcall_state 0x1000 0 0 =
     Inl AssertionFailure"
  by (simp add: NativePostCallNop_patch_def example_env_def)

section \<open>Trap instructions\<close>

text \<open>
  C4, at the failing input. \<^verbatim>\<open>NativeIllegalInstruction::insert\<close> stores the word
  \<^verbatim>\<open>0xd4bbd5a1\<close> at the address and does nothing else: the trace gains the store and no
  instruction-cache invalidation.
\<close>

theorem illegal_insert_effect:
  "load32 (mem (NativeIllegalInstruction_insert s code_pos)) code_pos = 0xd4bbd5a1 \<and>
   trace (NativeIllegalInstruction_insert s code_pos) = trace s @ [Store code_pos 4]"
  by (simp add: NativeIllegalInstruction_insert_def write32_def load32_store32_same)

text \<open>
  The sibling \<^verbatim>\<open>NativeDeoptInstruction::insert\<close> stores \<^verbatim>\<open>0xd4ade001\<close>, a different
  word, and then invalidates the four bytes it wrote.
\<close>

lemma deopt_insert_effect:
  "load32 (mem (NativeDeoptInstruction_insert s code_pos)) code_pos = 0xd4ade001 \<and>
   trace (NativeDeoptInstruction_insert s code_pos) =
     trace s @ [Store code_pos 4, ICacheInvalidate code_pos 4] \<and>
   (0xd4ade001 :: 32 word) \<noteq> 0xd4bbd5a1"
  by (simp add: NativeDeoptInstruction_insert_def write32_def load32_store32_same
      ICache_invalidate_range_def)

section \<open>Resolving a call's destination\<close>

text \<open>
  C5. With \<open>target\<close> the call's address plus its displacement:
  if \<open>target\<close> is the call's own address, \<^verbatim>\<open>NativeCall::destination\<close> returns it and
  the machine is unchanged (no \<^verbatim>\<open>find_blob\<close> is recorded); otherwise, the call lying in
  an nmethod, it returns the trampoline's stored destination when \<open>target\<close> is inside
  the nmethod's stub section and is a trampoline stub, and \<open>target\<close> in every other
  case.
\<close>

theorem NativeCall_destination_cases:
  "(let target = this + scast (NativeCall_displacement s this) in
    (target = this \<longrightarrow> NativeCall_destination env s this = Inr (this, s)) \<and>
    (target \<noteq> this \<and> find_blob env this = Some (Nmethod nm) \<and>
     stub_contains nm target \<and> is_NativeCallTrampolineStub_at s target \<longrightarrow>
       NativeCall_destination env s this =
         Inr (load64 (mem s) (target + 8), CodeCache_find_blob s this)) \<and>
    (target \<noteq> this \<and> find_blob env this = Some (Nmethod nm) \<and>
     \<not> (stub_contains nm target \<and> is_NativeCallTrampolineStub_at s target) \<longrightarrow>
       NativeCall_destination env s this = Inr (target, CodeCache_find_blob s this)))"
  by (auto simp add: NativeCall_destination_def Let_def bind_error_def as_nmethod_def
      NativeCallTrampolineStub_destination_def ptr_at_def addr_at_def data_offset_def
      is_NativeCallTrampolineStub_at_def CodeCache_find_blob_def
      nativeCallTrampolineStub_at_def)

lemma load32_zero: "load32 (\<lambda>a. 0) a = 0"
  by (simp add: load32_def)

lemma call_state_word: "load32 (mem (call_state w)) 0x1000 = w"
  by (simp add: call_state_def load32_store64_other load32_store32_other
      load32_store32_same separate_def)

lemma call_state_stub:
  "load32 (mem (call_state w)) 0x2000 = 0x58000048"
  "load32 (mem (call_state w)) 0x2004 = 0xd61f0100"
  "load64 (mem (call_state w)) 0x2008 = 0x7000000000"
  by (simp_all add: call_state_def load32_store64_other load32_store32_other
      load32_store32_same load64_store64_same separate_def)

lemma call_state_elsewhere: "load32 (mem (call_state w)) 0x1100 = 0"
  by (simp add: call_state_def load32_store64_other load32_store32_other separate_def
      load32_zero)

lemma call_state_displacement:
  "NativeCall_displacement (call_state 0x94000000) 0x1000 = 0"
  "NativeCall_displacement (call_state 0x94000400) 0x1000 = 0x1000"
  "NativeCall_displacement (call_state 0x94000040) 0x1000 = 0x100"
  by (simp_all add: NativeCall_displacement_def int_at_def addr_at_def call_state_word)

lemma example_blob: "find_blob (example_env c) 0x1000 = Some (Nmethod example_nmethod)"
  by (simp add: example_env_def)

lemma call_state_is_stub:
  "is_NativeCallTrampolineStub_at (call_state w) 0x2000"
  "\<not> is_NativeCallTrampolineStub_at (call_state w) 0x1100"
  by (simp_all add: is_NativeCallTrampolineStub_at_def call_state_stub call_state_elsewhere)

theorem NativeCall_destination_cases_witness:
  "NativeCall_destination (example_env True) (call_state 0x94000000) 0x1000 =
     Inr (0x1000, call_state 0x94000000) \<and>
   NativeCall_destination (example_env True) (call_state 0x94000400) 0x1000 =
     Inr (0x7000000000, CodeCache_find_blob (call_state 0x94000400) 0x1000) \<and>
   NativeCall_destination (example_env True) (call_state 0x94000040) 0x1000 =
     Inr (0x1100, CodeCache_find_blob (call_state 0x94000040) 0x1000)"
  using
    NativeCall_destination_cases
      [of "0x1000" "call_state 0x94000000" "example_env True" example_nmethod]
    NativeCall_destination_cases
      [of "0x1000" "call_state 0x94000400" "example_env True" example_nmethod]
    NativeCall_destination_cases
      [of "0x1000" "call_state 0x94000040" "example_env True" example_nmethod]
  by (simp add: call_state_displacement example_blob call_state_is_stub call_state_stub
      example_nmethod_def)

section \<open>Memory-access site: offset after set_offset\<close>

lemma store64_first_byte: "store64 m p v p = ucast v"
proof -
  have "4 \<le> unat (p - (p + 4))" by simp
  then have "store64 m p v p = store32 m p (ucast v) p"
    by (simp add: store64_def store32_other)
  also have "\<dots> = ucast (ucast v :: 32 word)"
    by (simp add: store32_def)
  also have "\<dots> = ucast v"
    by (rule bit_word_eqI) (auto simp add: bit_simps)
  finally show ?thesis .
qed

lemma low_byte: "(ucast (ucast (scast x :: 64 word) :: 8 word) :: 32 word) = x AND 0xff"
  for x :: "32 word"
proof -
  have "(ucast (ucast (scast x :: 64 word) :: 8 word) :: 32 word) = x AND mask 8"
    by (rule bit_word_eqI) (auto simp add: bit_simps)
  then show ?thesis by (simp add: mask_numeral)
qed

text \<open>
  At a site of the address-of-page family whose target is the pool slot \<open>p\<close>,
  \<^verbatim>\<open>set_offset(x)\<close> stores eight bytes at \<open>p\<close> and \<^verbatim>\<open>offset()\<close> reads back one: the
  result is the low byte of \<open>x\<close>, zero-extended.
\<close>

lemma set_offset_then_offset_pool:
  assumes adrp: "Instruction_aarch64_extract (load32 (mem s) this) 28 24 = 0b10000"
    and pool: "maybe_cpool_ref s this" "target_addr_for_insn env (mem s) this = p"
    and frame: "separate p 8 this 4"
      "target_addr_for_insn env (store64 (mem s) p (scast x)) this = p"
  shows "NativeMovRegMem_offset env (NativeMovRegMem_set_offset env s this x) this =
           x AND 0xff"
proof -
  have s': "NativeMovRegMem_set_offset env s this x = write64 s p (scast x)"
    using pool by (simp add: NativeMovRegMem_set_offset_def)
  have w: "load32 (mem (write64 s p (scast x))) this = load32 (mem s) this"
    using frame(1) by (simp add: write64_def load32_store64_other)
  show ?thesis
    using adrp frame(2)
    by (simp add: s' NativeMovRegMem_offset_def w)
      (simp add: write64_def store64_first_byte low_byte)
qed

lemma adrp_state_facts:
  "load32 (mem adrp_state) 0x1200 = 0x90000000"
  "load64 (mem adrp_state) 0x1204 = 0x5000"
  by (simp_all add: adrp_state_def load32_store64_other load32_store32_same
      load64_store64_same separate_def)

lemma adrp_state_pool: "maybe_cpool_ref adrp_state 0x1200"
  by (simp add: maybe_cpool_ref_def is_adrp_at_def adrp_state_facts
      Instruction_aarch64_extract_def mask_numeral)

text \<open>
  C6, at the failing input. On the address-of-page site of \<open>adrp_state\<close>,
  \<^verbatim>\<open>set_offset(256)\<close> followed by \<^verbatim>\<open>offset()\<close> returns 0, not 256.
\<close>

theorem set_offset_then_offset_reads_one_byte:
  "NativeMovRegMem_offset (example_env True)
     (NativeMovRegMem_set_offset (example_env True) adrp_state 0x1200 256) 0x1200 = 0"
proof -
  have "NativeMovRegMem_offset (example_env True)
     (NativeMovRegMem_set_offset (example_env True) adrp_state 0x1200 256) 0x1200 =
       256 AND 0xff"
    by (rule set_offset_then_offset_pool [where p = "0x5000"])
      (simp_all add: adrp_state_facts adrp_state_pool example_env_def
        Instruction_aarch64_extract_def mask_numeral separate_def load64_store64_other)
  then show ?thesis by simp
qed

section \<open>Patching a call whose destination is out of branch range\<close>









section \<open>Constant-load site: data after set_data\<close>

lemma movz_bit25:
  assumes "Instruction_aarch64_extract w 30 23 = 0b10100101"
  shows "bit w 25"
proof -
  have "bit (Instruction_aarch64_extract w 30 23) 2 = bit (0b10100101 :: 32 word) 2"
    using assms by simp
  then show ?thesis
    by (simp add: Instruction_aarch64_extract_def bit_simps)
qed

lemma adrp_bit25:
  assumes "Instruction_aarch64_extract w 31 24 AND 0b10011111 = 0b10010000"
  shows "\<not> bit w 25"
proof -
  have "bit (Instruction_aarch64_extract w 31 24 AND 0b10011111) 1 = bit (0b10010000 :: 32 word) 1"
    using assms by simp
  then show ?thesis
    by (simp add: Instruction_aarch64_extract_def bit_simps)
qed

lemma ldr_literal_bit25:
  assumes "Instruction_aarch64_extract w 29 24 AND 0b011011 = 0b00011000"
  shows "\<not> bit w 25"
proof -
  have "bit (Instruction_aarch64_extract w 29 24 AND 0b011011) 1 = bit (0b00011000 :: 32 word) 1"
    using assms by simp
  then show ?thesis
    by (simp add: Instruction_aarch64_extract_def bit_simps)
qed

lemma movz_not_cpool: "is_movz s a \<Longrightarrow> \<not> maybe_cpool_ref s a"
  using movz_bit25 [of "load32 (mem s) a"] adrp_bit25 [of "load32 (mem s) a"]
    ldr_literal_bit25 [of "load32 (mem s) a"]
  by (auto simp add: is_movz_def maybe_cpool_ref_def is_adrp_at_def is_ldr_literal_at_def
      int_at_def addr_at_def)

lemma replace_reloc_slot_first:
  "replace_reloc_slot s rs x =
     (case first_reference_reloc rs of None \<Rightarrow> s | Some r \<Rightarrow> write64 s (reloc_slot r) x)"
  by (induction rs) (auto simp add: first_reference_reloc_def)

lemma class_mem_cong:
  assumes "load32 (mem s') a = load32 (mem s) a"
  shows "is_movz s' a = is_movz s a" "is_adrp_at s' a = is_adrp_at s a"
    "is_ldr_literal_at s' a = is_ldr_literal_at s a" "maybe_cpool_ref s' a = maybe_cpool_ref s a"
  using assms
  by (simp_all add: is_movz_def is_adrp_at_def is_ldr_literal_at_def maybe_cpool_ref_def
      int_at_def addr_at_def)

lemma set_data_not_pool:
  assumes blob: "find_blob env this = Some b"
    and np: "\<not> maybe_cpool_ref s this"
    and mz: "is_movz (MacroAssembler_pd_patch_instruction env s this x) this"
  shows "\<exists>s'. NativeMovConstReg_set_data env s this x = Inr s' \<and>
     trace s' = trace s @ [PatchInstruction this x, ICacheInvalidate this 12, FindBlob this] @
                  reference_store b this (this + 12) \<and>
     mem s' = (case updated_reloc b this (this + 12) of
                 None \<Rightarrow> pd_patch_instruction env (mem s) this x
               | Some r \<Rightarrow> store64 (pd_patch_instruction env (mem s) this x) (reloc_slot r) x)"
proof -
  define s2 where "s2 = CodeCache_find_blob (ICache_invalidate_range
     (MacroAssembler_pd_patch_instruction env s this x) this 12) this"
  have m2: "mem s2 = pd_patch_instruction env (mem s) this x"
    and t2: "trace s2 = trace s @ [PatchInstruction this x, ICacheInvalidate this 12, FindBlob this]"
    by (simp_all add: s2_def CodeCache_find_blob_def ICache_invalidate_range_def
        MacroAssembler_pd_patch_instruction_def)
  have eq: "load32 (mem s2) this =
      load32 (mem (MacroAssembler_pd_patch_instruction env s this x)) this"
    by (simp add: m2 MacroAssembler_pd_patch_instruction_def)
  have "is_movz s2 this" using mz class_mem_cong(1) [OF eq] by simp
  then have lim: "NativeMovConstReg_next_instruction_address env s2 this = Inr (this + 12)"
    by (simp add: NativeMovConstReg_next_instruction_address_def addr_at_def
        NativeMovConstReg_instruction_size_def)
  have sd: "NativeMovConstReg_set_data env s this x =
      (case b of
         OtherBlob \<Rightarrow> Inr s2
       | Nmethod nm \<Rightarrow>
           bind_error (NativeMovConstReg_next_instruction_address env s2 this)
             (\<lambda>limit. Inr (replace_reloc_slot s2 (reloc_range nm this limit) x)))"
    using blob np unfolding NativeMovConstReg_set_data_def s2_def Let_def
    by (cases b) (simp_all add: NativeMovConstReg_instruction_size_def)
  show ?thesis
  proof (cases b)
    case OtherBlob
    then show ?thesis using m2 t2
      by (simp add: sd reference_store_def updated_reloc_def)
  next
    case (Nmethod nm)
    then have "NativeMovConstReg_set_data env s this x =
        Inr (replace_reloc_slot s2 (reloc_range nm this (this + 12)) x)"
      by (simp add: sd lim bind_error_def)
    then show ?thesis using Nmethod m2 t2
      by (cases "first_reference_reloc (reloc_range nm this (this + 12))")
        (simp_all add: replace_reloc_slot_first reference_store_def updated_reloc_def
          write64_def)
  qed
qed

lemma set_data_then_data:
  assumes run: "NativeMovConstReg_set_data env s this x = Inr s'"
    and blob: "find_blob env this = Some b"
    and np: "\<not> maybe_cpool_ref s this"
    and mz: "is_movz (MacroAssembler_pd_patch_instruction env s this x) this"
    and rt: "target_addr_for_insn env (pd_patch_instruction env (mem s) this x) this = x"
    and dec: "site_decoder env this 12"
    and sep: "\<And>r. updated_reloc b this (this + 12) = Some r \<Longrightarrow>
                separate (reloc_slot r) 8 this 12"
  shows "NativeMovConstReg_data env s' this = x"
proof -
  define mp where "mp = pd_patch_instruction env (mem s) this x"
  have m': "mem s' = (case updated_reloc b this (this + 12) of
                 None \<Rightarrow> mp | Some r \<Rightarrow> store64 mp (reloc_slot r) x)"
    using set_data_not_pool [OF blob np mz] run unfolding mp_def by auto
  have same: "mem s' (this + of_nat i) = mp (this + of_nat i)" if "i < 12" for i
  proof (cases "updated_reloc b this (this + 12)")
    case None
    then show ?thesis by (simp add: m')
  next
    case (Some r)
    have "8 \<le> unat (this + of_nat i - reloc_slot r)"
      using sep [OF Some] that by (rule separate_byte)
    then show ?thesis by (simp add: m' Some store64_other)
  qed
  have "\<forall>i<12. mem s' (this + of_nat i) = mp (this + of_nat i)"
    using same by simp
  then have "target_addr_for_insn env (mem s') this = target_addr_for_insn env mp this"
    using dec unfolding site_decoder_def by blast
  then have d: "target_addr_for_insn env (mem s') this = x"
    using rt by (simp add: mp_def)
  have "load32 (mem s') this = load32 mp this"
    by (rule load32_outside) (simp add: same)
  then have eq: "load32 (mem s') this =
      load32 (mem (MacroAssembler_pd_patch_instruction env s this x)) this"
    by (simp add: mp_def MacroAssembler_pd_patch_instruction_def)
  have "is_movz s' this" using mz class_mem_cong(1) [OF eq] by simp
  then have "\<not> maybe_cpool_ref s' this" by (rule movz_not_cpool)
  then show ?thesis using d by (simp add: NativeMovConstReg_data_def)
qed

lemma set_data_pool:
  assumes blob: "find_blob env this = Some b"
    and pl: "maybe_cpool_ref s this"
    and sep: "separate (target_addr_for_insn env (mem s) this) 8 this 4"
  shows "\<exists>s'. NativeMovConstReg_set_data env s this x = Inr s' \<and>
     trace s' = trace s @ [Store (target_addr_for_insn env (mem s) this) 8, FindBlob this] @
        reference_store b this (if is_adrp_at s this then this + 8 else this + 4) \<and>
     mem s' =
       (case updated_reloc b this (if is_adrp_at s this then this + 8 else this + 4) of
          None \<Rightarrow> store64 (mem s) (target_addr_for_insn env (mem s) this) x
        | Some r \<Rightarrow> store64 (store64 (mem s) (target_addr_for_insn env (mem s) this) x)
                     (reloc_slot r) x)"
proof -
  define pool where "pool = target_addr_for_insn env (mem s) this"
  define limit where "limit = (if is_adrp_at s this then this + 8 else this + 4)"
  define s2 where "s2 = CodeCache_find_blob (write64 s pool x) this"
  have m2: "mem s2 = store64 (mem s) pool x"
    and t2: "trace s2 = trace s @ [Store pool 8, FindBlob this]"
    by (simp_all add: s2_def CodeCache_find_blob_def write64_def)
  have w: "load32 (mem s2) this = load32 (mem s) this"
    using sep by (simp add: m2 pool_def load32_store64_other)
  have "\<not> is_movz s this" using pl movz_not_cpool by blast
  then have lim: "NativeMovConstReg_next_instruction_address env s2 this = Inr limit"
    using pl
    by (auto simp add: NativeMovConstReg_next_instruction_address_def addr_at_def
        class_mem_cong [OF w] maybe_cpool_ref_def limit_def)
  show ?thesis
  proof (cases b)
    case OtherBlob
    then have "NativeMovConstReg_set_data env s this x = Inr s2"
      using blob pl
      by (simp add: NativeMovConstReg_set_data_def Let_def s2_def pool_def)
    then show ?thesis using OtherBlob m2 t2 unfolding pool_def [symmetric]
      by (simp add: reference_store_def updated_reloc_def)
  next
    case (Nmethod nm)
    then have "NativeMovConstReg_set_data env s this x =
        Inr (replace_reloc_slot s2 (reloc_range nm this limit) x)"
      using blob pl lim
      by (simp add: NativeMovConstReg_set_data_def Let_def bind_error_def
          flip: pool_def s2_def)
    then show ?thesis using Nmethod m2 t2 unfolding limit_def [symmetric] pool_def [symmetric]
      by (cases "first_reference_reloc (reloc_range nm this limit)")
        (simp_all add: replace_reloc_slot_first reference_store_def updated_reloc_def
          write64_def)
  qed
qed

text \<open>
  C9. Let the site lie in a code blob \<open>b\<close>. (1) If the site is not a pool reference
  (and is a move-wide site after the patch), \<^verbatim>\<open>set_data(x)\<close> succeeds and does, in
  this order: the rewrite of the instruction stream, the invalidation of the site's 12
  bytes, the blob lookup, and, when \<open>b\<close> is an nmethod with a record of kind object
  reference or type-metadata reference overlapping the instruction, one 8-byte store of
  \<open>x\<close> into the slot of the first such record and nothing for any later record;
  that slot then holds \<open>x\<close>; and \<^verbatim>\<open>data()\<close> returns \<open>x\<close> provided the external
  encoder and decoder round-trip \<open>x\<close> at the site, the decoder reads only the site and
  the slot does not overlap the site. (2) If the site is a pool reference whose pool slot
  does not overlap the site's first instruction, \<^verbatim>\<open>set_data(x)\<close> stores \<open>x\<close> into
  the pool slot, and the trace has no instruction rewrite and no cache invalidation.
\<close>

theorem set_data_effects:
  assumes blob: "find_blob env this = Some b"
  shows
    "(\<not> maybe_cpool_ref s this \<and>
      is_movz (MacroAssembler_pd_patch_instruction env s this x) this \<longrightarrow>
        (\<exists>s'. NativeMovConstReg_set_data env s this x = Inr s' \<and>
           trace s' = trace s @ [PatchInstruction this x, ICacheInvalidate this 12,
                                 FindBlob this] @ reference_store b this (this + 12) \<and>
           mem s' = (case updated_reloc b this (this + 12) of
                       None \<Rightarrow> pd_patch_instruction env (mem s) this x
                     | Some r \<Rightarrow> store64 (pd_patch_instruction env (mem s) this x)
                                  (reloc_slot r) x) \<and>
           (\<forall>r. updated_reloc b this (this + 12) = Some r \<longrightarrow>
                load64 (mem s') (reloc_slot r) = x) \<and>
           (target_addr_for_insn env (pd_patch_instruction env (mem s) this x) this = x \<and>
            site_decoder env this 12 \<and>
            (\<forall>r. updated_reloc b this (this + 12) = Some r \<longrightarrow>
                 separate (reloc_slot r) 8 this 12) \<longrightarrow>
              NativeMovConstReg_data env s' this = x))) \<and>
     (maybe_cpool_ref s this \<and>
      separate (target_addr_for_insn env (mem s) this) 8 this 4 \<longrightarrow>
        (\<exists>s'. NativeMovConstReg_set_data env s this x = Inr s' \<and>
           trace s' = trace s @ [Store (target_addr_for_insn env (mem s) this) 8,
                                 FindBlob this] @
             reference_store b this (if is_adrp_at s this then this + 8 else this + 4) \<and>
           mem s' =
             (case updated_reloc b this (if is_adrp_at s this then this + 8 else this + 4) of
                None \<Rightarrow> store64 (mem s) (target_addr_for_insn env (mem s) this) x
              | Some r \<Rightarrow>
                  store64 (store64 (mem s) (target_addr_for_insn env (mem s) this) x)
                    (reloc_slot r) x)))"
proof (intro conjI impI)
  assume a: "\<not> maybe_cpool_ref s this \<and>
      is_movz (MacroAssembler_pd_patch_instruction env s this x) this"
  then have np: "\<not> maybe_cpool_ref s this"
    and mz: "is_movz (MacroAssembler_pd_patch_instruction env s this x) this"
    by simp_all
  from set_data_not_pool [OF blob np mz]
  obtain s' where run: "NativeMovConstReg_set_data env s this x = Inr s'"
    and tr: "trace s' = trace s @ [PatchInstruction this x, ICacheInvalidate this 12,
                                 FindBlob this] @ reference_store b this (this + 12)"
    and me: "mem s' = (case updated_reloc b this (this + 12) of
                       None \<Rightarrow> pd_patch_instruction env (mem s) this x
                     | Some r \<Rightarrow> store64 (pd_patch_instruction env (mem s) this x)
                                  (reloc_slot r) x)"
    by blast
  have sl: "\<forall>r. updated_reloc b this (this + 12) = Some r \<longrightarrow>
                load64 (mem s') (reloc_slot r) = x"
    by (simp add: me load64_store64_same)
  have da: "target_addr_for_insn env (pd_patch_instruction env (mem s) this x) this = x \<and>
            site_decoder env this 12 \<and>
            (\<forall>r. updated_reloc b this (this + 12) = Some r \<longrightarrow>
                 separate (reloc_slot r) 8 this 12) \<longrightarrow>
              NativeMovConstReg_data env s' this = x"
    using set_data_then_data [OF run blob np mz] by blast
  from run tr me sl da
  show "\<exists>s'. NativeMovConstReg_set_data env s this x = Inr s' \<and>
           trace s' = trace s @ [PatchInstruction this x, ICacheInvalidate this 12,
                                 FindBlob this] @ reference_store b this (this + 12) \<and>
           mem s' = (case updated_reloc b this (this + 12) of
                       None \<Rightarrow> pd_patch_instruction env (mem s) this x
                     | Some r \<Rightarrow> store64 (pd_patch_instruction env (mem s) this x)
                                  (reloc_slot r) x) \<and>
           (\<forall>r. updated_reloc b this (this + 12) = Some r \<longrightarrow>
                load64 (mem s') (reloc_slot r) = x) \<and>
           (target_addr_for_insn env (pd_patch_instruction env (mem s) this x) this = x \<and>
            site_decoder env this 12 \<and>
            (\<forall>r. updated_reloc b this (this + 12) = Some r \<longrightarrow>
                 separate (reloc_slot r) 8 this 12) \<longrightarrow>
              NativeMovConstReg_data env s' this = x)"
    by blast
next
  assume "maybe_cpool_ref s this \<and>
      separate (target_addr_for_insn env (mem s) this) 8 this 4"
  then show "\<exists>s'. NativeMovConstReg_set_data env s this x = Inr s' \<and>
           trace s' = trace s @ [Store (target_addr_for_insn env (mem s) this) 8,
                                 FindBlob this] @
             reference_store b this (if is_adrp_at s this then this + 8 else this + 4) \<and>
           mem s' =
             (case updated_reloc b this (if is_adrp_at s this then this + 8 else this + 4) of
                None \<Rightarrow> store64 (mem s) (target_addr_for_insn env (mem s) this) x
              | Some r \<Rightarrow>
                  store64 (store64 (mem s) (target_addr_for_insn env (mem s) this) x)
                    (reloc_slot r) x)"
    using set_data_pool [OF blob] by blast
qed

lemma example_site_decoder: "site_decoder (example_env c) a 12"
  unfolding site_decoder_def
proof (intro allI impI)
  fix m m' :: memory
  assume h: "\<forall>i<12. m (a + of_nat i) = m' (a + of_nat i)"
  have "load64 m (a + 4) = load64 m' (a + 4)"
  proof (rule load64_outside)
    fix i :: nat assume "i < 8"
    then show "m (a + 4 + of_nat i) = m' (a + 4 + of_nat i)"
      using h [rule_format, of "4 + i"] by (simp add: add.assoc)
  qed
  then show "target_addr_for_insn (example_env c) m a = target_addr_for_insn (example_env c) m' a"
    by (simp add: example_env_def)
qed

lemma example_blobs:
  "find_blob (example_env c) 0x1100 = Some (Nmethod example_nmethod)"
  "find_blob (example_env c) 0x1200 = Some (Nmethod example_nmethod)"
  by (simp_all add: example_env_def)

lemma example_relocs:
  "updated_reloc (Nmethod example_nmethod) 0x1100 0x110c =
     Some \<lparr>reloc_addr = 0x1100, reloc_kind = oop_type, reloc_slot = 0x4000\<rparr>"
  "updated_reloc (Nmethod example_nmethod) 0x1200 0x1208 = None"
  by (simp_all add: updated_reloc_def first_reference_reloc_def reloc_range_def
      RelocIterator_def example_nmethod_def)

lemma movz_state_word: "load32 (mem movz_state) 0x1100 = 0xd2800000"
  by (simp add: movz_state_def load32_store32_same)

lemma movz_state_class:
  "\<not> maybe_cpool_ref movz_state 0x1100"
  "is_movz (MacroAssembler_pd_patch_instruction (example_env c) movz_state 0x1100 x) 0x1100"
proof -
  have m: "is_movz movz_state 0x1100"
    by (simp add: is_movz_def int_at_def addr_at_def movz_state_word
        Instruction_aarch64_extract_def mask_numeral)
  then show "\<not> maybe_cpool_ref movz_state 0x1100" by (rule movz_not_cpool)
  have "load32 (mem (MacroAssembler_pd_patch_instruction (example_env c) movz_state 0x1100 x))
          0x1100 = load32 (mem movz_state) 0x1100"
    by (simp add: MacroAssembler_pd_patch_instruction_def example_env_def
        load32_store64_other separate_def)
  from class_mem_cong(1) [OF this] m
  show "is_movz (MacroAssembler_pd_patch_instruction (example_env c) movz_state 0x1100 x) 0x1100"
    by simp
qed

theorem set_data_effects_witness:
  "(\<exists>s'. NativeMovConstReg_set_data (example_env True) movz_state 0x1100 0x123456789a =
            Inr s' \<and>
      trace s' = [PatchInstruction 0x1100 0x123456789a, ICacheInvalidate 0x1100 12,
                  FindBlob 0x1100, Store 0x4000 8] \<and>
      load64 (mem s') 0x4000 = 0x123456789a \<and>
      NativeMovConstReg_data (example_env True) s' 0x1100 = 0x123456789a) \<and>
   (\<exists>s'. NativeMovConstReg_set_data (example_env True) adrp_state 0x1200 0x42 = Inr s' \<and>
      trace s' = [Store 0x5000 8, FindBlob 0x1200] \<and>
      mem s' = store64 (mem adrp_state) 0x5000 0x42)"
proof -
  let ?e = "example_env True"
  let ?b = "Nmethod example_nmethod"
  let ?x = "0x123456789a :: 64 word"
  have rt: "target_addr_for_insn ?e (pd_patch_instruction ?e (mem movz_state) 0x1100 ?x) 0x1100
              = ?x"
    by (simp add: example_env_def load64_store64_same)
  have sp: "\<forall>r. updated_reloc ?b 0x1100 (0x1100 + 12) = Some r \<longrightarrow>
                 separate (reloc_slot r) 8 0x1100 12"
    by (simp add: example_relocs separate_def)
  from set_data_effects [OF example_blobs(1) [of True], of movz_state ?x]
    movz_state_class(1) movz_state_class(2) [of True ?x]
  obtain s' where run: "NativeMovConstReg_set_data ?e movz_state 0x1100 ?x = Inr s'"
    and tr: "trace s' = trace movz_state @ [PatchInstruction 0x1100 ?x,
        ICacheInvalidate 0x1100 12, FindBlob 0x1100] @ reference_store ?b 0x1100 (0x1100 + 12)"
    and sl: "\<forall>r. updated_reloc ?b 0x1100 (0x1100 + 12) = Some r \<longrightarrow>
                load64 (mem s') (reloc_slot r) = ?x"
    and da: "target_addr_for_insn ?e (pd_patch_instruction ?e (mem movz_state) 0x1100 ?x)
               0x1100 = ?x \<and>
            site_decoder ?e 0x1100 12 \<and>
            (\<forall>r. updated_reloc ?b 0x1100 (0x1100 + 12) = Some r \<longrightarrow>
                 separate (reloc_slot r) 8 0x1100 12) \<longrightarrow>
              NativeMovConstReg_data ?e s' 0x1100 = ?x"
    by blast
  have d: "NativeMovConstReg_data ?e s' 0x1100 = ?x"
    using da rt sp example_site_decoder [of True "0x1100"] by blast
  have t: "trace s' = [PatchInstruction 0x1100 ?x, ICacheInvalidate 0x1100 12,
                  FindBlob 0x1100, Store 0x4000 8]"
    using tr by (simp add: reference_store_def example_relocs movz_state_def)
  have l: "load64 (mem s') 0x4000 = ?x"
    using sl by (simp add: example_relocs)
  have first: "\<exists>s'. NativeMovConstReg_set_data ?e movz_state 0x1100 ?x = Inr s' \<and>
      trace s' = [PatchInstruction 0x1100 ?x, ICacheInvalidate 0x1100 12,
                  FindBlob 0x1100, Store 0x4000 8] \<and>
      load64 (mem s') 0x4000 = ?x \<and>
      NativeMovConstReg_data ?e s' 0x1100 = ?x"
    using run t l d by blast
  have pool: "target_addr_for_insn ?e (mem adrp_state) 0x1200 = 0x5000"
    by (simp add: example_env_def adrp_state_facts)
  have adrp: "is_adrp_at adrp_state 0x1200"
    by (simp add: is_adrp_at_def adrp_state_facts Instruction_aarch64_extract_def mask_numeral)
  have "maybe_cpool_ref adrp_state 0x1200 \<and>
      separate (target_addr_for_insn ?e (mem adrp_state) 0x1200) 8 0x1200 4"
    by (simp add: adrp_state_pool pool separate_def)
  with set_data_effects [OF example_blobs(2) [of True], of adrp_state "0x42"]
  obtain s'' where "NativeMovConstReg_set_data ?e adrp_state 0x1200 0x42 = Inr s''"
    and "trace s'' = trace adrp_state @
           [Store (target_addr_for_insn ?e (mem adrp_state) 0x1200) 8, FindBlob 0x1200] @
             reference_store ?b 0x1200
               (if is_adrp_at adrp_state 0x1200 then 0x1200 + 8 else 0x1200 + 4)"
    and "mem s'' =
             (case updated_reloc ?b 0x1200
                     (if is_adrp_at adrp_state 0x1200 then 0x1200 + 8 else 0x1200 + 4) of
                None \<Rightarrow> store64 (mem adrp_state)
                          (target_addr_for_insn ?e (mem adrp_state) 0x1200) 0x42
              | Some r \<Rightarrow>
                  store64 (store64 (mem adrp_state)
                    (target_addr_for_insn ?e (mem adrp_state) 0x1200) 0x42) (reloc_slot r) 0x42)"
    by blast
  then have second: "\<exists>s'. NativeMovConstReg_set_data ?e adrp_state 0x1200 0x42 = Inr s' \<and>
      trace s' = [Store 0x5000 8, FindBlob 0x1200] \<and>
      mem s' = store64 (mem adrp_state) 0x5000 0x42"
    using adrp by (simp add: pool example_relocs reference_store_def) (simp add: adrp_state_def)
  from first second show ?thesis by blast
qed

section \<open>Jump sites: the unresolved marker\<close>

lemma general_jump_roundtrip:
  assumes blob: "find_blob env this = Some b"
    and np: "\<not> maybe_cpool_ref s this"
    and mz: "is_movz (MacroAssembler_pd_patch_instruction env s this this) this"
    and rt: "target_addr_for_insn env (pd_patch_instruction env (mem s) this this) this = this"
    and dec: "site_decoder env this 12"
    and sep: "\<forall>r. updated_reloc b this (this + 12) = Some r \<longrightarrow>
                separate (reloc_slot r) 8 this 12"
  shows "\<exists>s'. NativeGeneralJump_set_jump_destination env s this (- 1) = Inr s' \<and>
           NativeGeneralJump_jump_destination env s' this = - 1"
proof -
  from set_data_not_pool [OF blob np mz]
  obtain s' where run: "NativeMovConstReg_set_data env s this this = Inr s'" by blast
  have "NativeMovConstReg_data env s' this = this"
    using set_data_then_data [OF run blob np mz rt dec] sep by blast
  then have "NativeGeneralJump_jump_destination env s' this = - 1"
    by (simp add: NativeGeneralJump_jump_destination_def)
  moreover have "NativeGeneralJump_set_jump_destination env s this (- 1) = Inr s'"
    using run by (simp add: NativeGeneralJump_set_jump_destination_def)
  ultimately show ?thesis by blast
qed

text \<open>
  C7. For the direct and for the general jump site, \<^verbatim>\<open>jump_destination\<close> returns the
  all-ones address whenever the computed target is the site's own address or null.
  \<^verbatim>\<open>NativeJump::set_jump_destination\<close> of the all-ones address patches the site to
  jump to itself (and invalidates its four bytes), after which \<^verbatim>\<open>jump_destination\<close>
  returns the all-ones address again, the external encoder and decoder agreeing on the
  self-jump. \<^verbatim>\<open>NativeGeneralJump::set_jump_destination\<close> of the all-ones address is
  \<^verbatim>\<open>set_data\<close> of the site's own address, after which \<^verbatim>\<open>jump_destination\<close>
  returns the all-ones address again, for a move-wide site in a code blob under the
  provisos of \<^verbatim>\<open>set_data\<close>.
\<close>

theorem jump_unresolved_sentinel:
  "(target_addr_for_insn_or_null env (mem s) this = this \<or>
    target_addr_for_insn_or_null env (mem s) this = 0 \<longrightarrow>
      NativeJump_jump_destination env s this = - 1) \<and>
   (NativeMovConstReg_data env s this = this \<or> NativeMovConstReg_data env s this = 0 \<longrightarrow>
      NativeGeneralJump_jump_destination env s this = - 1) \<and>
   NativeJump_set_jump_destination env s this (- 1) =
     ICache_invalidate_range (MacroAssembler_pd_patch_instruction env s this this) this 4 \<and>
   (target_addr_for_insn_or_null env (pd_patch_instruction env (mem s) this this) this = this
      \<longrightarrow>
      NativeJump_jump_destination env (NativeJump_set_jump_destination env s this (- 1)) this
        = - 1) \<and>
   NativeGeneralJump_set_jump_destination env s this (- 1) =
     NativeMovConstReg_set_data env s this this \<and>
   (find_blob env this = Some b \<and> \<not> maybe_cpool_ref s this \<and>
    is_movz (MacroAssembler_pd_patch_instruction env s this this) this \<and>
    target_addr_for_insn env (pd_patch_instruction env (mem s) this this) this = this \<and>
    site_decoder env this 12 \<and>
    (\<forall>r. updated_reloc b this (this + 12) = Some r \<longrightarrow>
         separate (reloc_slot r) 8 this 12) \<longrightarrow>
      (\<exists>s'. NativeGeneralJump_set_jump_destination env s this (- 1) = Inr s' \<and>
            NativeGeneralJump_jump_destination env s' this = - 1))"
proof (intro conjI impI)
  assume "target_addr_for_insn_or_null env (mem s) this = this \<or>
    target_addr_for_insn_or_null env (mem s) this = 0"
  then show "NativeJump_jump_destination env s this = - 1"
    by (auto simp add: NativeJump_jump_destination_def)
next
  assume "NativeMovConstReg_data env s this = this \<or> NativeMovConstReg_data env s this = 0"
  then show "NativeGeneralJump_jump_destination env s this = - 1"
    by (auto simp add: NativeGeneralJump_jump_destination_def)
next
  show "NativeJump_set_jump_destination env s this (- 1) =
     ICache_invalidate_range (MacroAssembler_pd_patch_instruction env s this this) this 4"
    by (simp add: NativeJump_set_jump_destination_def instruction_size_def)
next
  assume "target_addr_for_insn_or_null env (pd_patch_instruction env (mem s) this this) this
            = this"
  then show "NativeJump_jump_destination env
      (NativeJump_set_jump_destination env s this (- 1)) this = - 1"
    by (simp add: NativeJump_jump_destination_def NativeJump_set_jump_destination_def
        ICache_invalidate_range_def MacroAssembler_pd_patch_instruction_def)
next
  show "NativeGeneralJump_set_jump_destination env s this (- 1) =
     NativeMovConstReg_set_data env s this this"
    by (simp add: NativeGeneralJump_set_jump_destination_def)
next
  assume "find_blob env this = Some b \<and> \<not> maybe_cpool_ref s this \<and>
    is_movz (MacroAssembler_pd_patch_instruction env s this this) this \<and>
    target_addr_for_insn env (pd_patch_instruction env (mem s) this this) this = this \<and>
    site_decoder env this 12 \<and>
    (\<forall>r. updated_reloc b this (this + 12) = Some r \<longrightarrow>
         separate (reloc_slot r) 8 this 12)"
  then show "\<exists>s'. NativeGeneralJump_set_jump_destination env s this (- 1) = Inr s' \<and>
            NativeGeneralJump_jump_destination env s' this = - 1"
    using general_jump_roundtrip [of env this b s] by blast
qed

lemma movz_state_target: "load64 (mem movz_state) 0x1104 = 0"
proof -
  have "load64 (\<lambda>a. 0) 0x1104 = 0"
    by (simp add: load64_def load32_zero)
  then show ?thesis
    by (simp add: movz_state_def load64_store32_other separate_def)
qed

theorem jump_unresolved_sentinel_witness:
  "NativeJump_jump_destination (example_env True) movz_state 0x1100 = - 1 \<and>
   NativeGeneralJump_jump_destination (example_env True) movz_state 0x1100 = - 1 \<and>
   NativeJump_jump_destination (example_env True)
     (NativeJump_set_jump_destination (example_env True) movz_state 0x1100 (- 1)) 0x1100
       = - 1 \<and>
   (\<exists>s'. NativeGeneralJump_set_jump_destination (example_env True) movz_state 0x1100 (- 1)
            = Inr s' \<and>
         NativeGeneralJump_jump_destination (example_env True) s' 0x1100 = - 1)"
proof -
  let ?e = "example_env True"
  let ?b = "Nmethod example_nmethod"
  note t = jump_unresolved_sentinel [of ?e movz_state "0x1100" ?b]
  have n: "target_addr_for_insn_or_null ?e (mem movz_state) 0x1100 = 0"
    by (simp add: example_env_def movz_state_target)
  have d: "NativeMovConstReg_data ?e movz_state 0x1100 = 0"
    by (simp add: NativeMovConstReg_data_def movz_state_class example_env_def
        movz_state_target)
  have r: "target_addr_for_insn_or_null ?e
             (pd_patch_instruction ?e (mem movz_state) 0x1100 0x1100) 0x1100 = 0x1100"
    "target_addr_for_insn ?e
             (pd_patch_instruction ?e (mem movz_state) 0x1100 0x1100) 0x1100 = 0x1100"
    by (simp_all add: example_env_def load64_store64_same)
  have sp: "\<forall>r. updated_reloc ?b 0x1100 (0x1100 + 12) = Some r \<longrightarrow>
                 separate (reloc_slot r) 8 0x1100 12"
    by (simp add: example_relocs separate_def)
  have 1: "NativeJump_jump_destination ?e movz_state 0x1100 = - 1"
    using t n by blast
  have 2: "NativeGeneralJump_jump_destination ?e movz_state 0x1100 = - 1"
    using t d by blast
  have 3: "NativeJump_jump_destination ?e
     (NativeJump_set_jump_destination ?e movz_state 0x1100 (- 1)) 0x1100 = - 1"
    using t r(1) by blast
  have 4: "\<exists>s'. NativeGeneralJump_set_jump_destination ?e movz_state 0x1100 (- 1) = Inr s' \<and>
         NativeGeneralJump_jump_destination ?e s' 0x1100 = - 1"
    using t example_blobs(1) [of True] movz_state_class(1)
      movz_state_class(2) [of True "0x1100"] r(2) example_site_decoder [of True "0x1100"] sp
    by blast
  from 1 2 3 4 show ?thesis by blast
qed

section \<open>Patching a call through its trampoline stub\<close>

lemma displacement_trace [simp]:
  "NativeCall_displacement (s\<lparr>trace := t\<rparr>) a = NativeCall_displacement s a"
  by (simp add: NativeCall_displacement_def int_at_def)

lemma is_stub_trace [simp]:
  "is_NativeCallTrampolineStub_at (s\<lparr>trace := t\<rparr>) a = is_NativeCallTrampolineStub_at s a"
  by (simp add: is_NativeCallTrampolineStub_at_def)

lemma stub_destination_trace [simp]:
  "NativeCallTrampolineStub_destination (s\<lparr>trace := t\<rparr>) a =
     NativeCallTrampolineStub_destination s a"
  by (simp add: NativeCallTrampolineStub_destination_def ptr_at_def)























section \<open>What a reader observes while a call is patched\<close>







section \<open>General-jump classification\<close>

lemma opcode_field:
  fixes w c :: "32 word"
  assumes c: "c AND mask 8 = c"
  shows "(Instruction_aarch64_extract w 30 23 = c) =
         (w AND push_bit 23 (mask 8) = push_bit 23 c)"
proof
  assume "Instruction_aarch64_extract w 30 23 = c"
  then have e: "drop_bit 23 w AND mask 8 = c"
    by (simp add: Instruction_aarch64_extract_def)
  have "w AND push_bit 23 (mask 8) = push_bit 23 (drop_bit 23 w AND mask 8)"
    by (rule bit_word_eqI) (auto simp add: bit_simps)
  then show "w AND push_bit 23 (mask 8) = push_bit 23 c" by (simp only: e)
next
  assume a: "w AND push_bit 23 (mask 8) = push_bit 23 c"
  have "drop_bit 23 (w AND push_bit 23 (mask 8)) = drop_bit 23 w AND mask 8"
    by (rule bit_word_eqI) (auto simp add: bit_simps)
  moreover have "drop_bit 23 (push_bit 23 (c AND mask 8)) = c AND mask 8"
    by (rule bit_word_eqI) (auto simp add: bit_simps)
  ultimately have "drop_bit 23 w AND mask 8 = c"
    using a c by simp
  then show "Instruction_aarch64_extract w 30 23 = c"
    by (simp add: Instruction_aarch64_extract_def)
qed

lemma class_words:
  "is_movz s a = move_wide (load32 (mem s) a)"
  "is_movk s a = move_wide_keep (load32 (mem s) a)"
  "is_blr s a = branch_register (load32 (mem s) a)"
  using opcode_field [of "0b10100101" "load32 (mem s) a"]
    opcode_field [of "0b11100101" "load32 (mem s) a"]
  by (simp_all add: is_movz_def is_movk_def is_blr_def move_wide_def move_wide_keep_def
      branch_register_def int_at_def uint_at_def addr_at_def mask_numeral)

lemma is_general_jump_words:
  "is_general_jump s n =
     (move_wide (load32 (mem s) n) \<and> move_wide_keep (load32 (mem s) (n + 4)) \<and>
      move_wide_keep (load32 (mem s) (n + 8)) \<and> branch_register (load32 (mem s) (n + 12)))"
  by (simp add: is_general_jump_def addr_at_def instruction_size_def class_words)

lemma sequence_frame:
  "load32 (mem (write32 s n w)) (n + 4) = load32 (mem s) (n + 4)"
  "load32 (mem (write32 s n w)) (n + 8) = load32 (mem s) (n + 8)"
  "load32 (mem (write32 s n w)) (n + 12) = load32 (mem s) (n + 12)"
  "load32 (mem (write32 s (n + 4) w)) n = load32 (mem s) n"
  "load32 (mem (write32 s (n + 4) w)) (n + 8) = load32 (mem s) (n + 8)"
  "load32 (mem (write32 s (n + 4) w)) (n + 12) = load32 (mem s) (n + 12)"
  "load32 (mem (write32 s (n + 8) w)) n = load32 (mem s) n"
  "load32 (mem (write32 s (n + 8) w)) (n + 4) = load32 (mem s) (n + 4)"
  "load32 (mem (write32 s (n + 8) w)) (n + 12) = load32 (mem s) (n + 12)"
  "load32 (mem (write32 s (n + 12) w)) n = load32 (mem s) n"
  "load32 (mem (write32 s (n + 12) w)) (n + 4) = load32 (mem s) (n + 4)"
  "load32 (mem (write32 s (n + 12) w)) (n + 8) = load32 (mem s) (n + 8)"
  by (simp_all add: write32_def load32_store32_other separate_def)

text \<open>
  C8, as the code has it. \<^verbatim>\<open>is_general_jump\<close> is true exactly when the four
  consecutive instruction words at the site are, in order, of the families move-wide,
  move-wide-keep, move-wide-keep and branch-register. On a general jump, overwriting the
  word at any one of the four positions leaves it a general jump exactly when the new
  word is of that position's family; on any machine a word that is not of the position's
  family makes it false; and the no-op \<^verbatim>\<open>0xd503201f\<close> is of none of the three families,
  so a no-op at any of the four positions makes it false.
\<close>

theorem general_jump_substitution:
  "is_general_jump s n =
     (move_wide (load32 (mem s) n) \<and> move_wide_keep (load32 (mem s) (n + 4)) \<and>
      move_wide_keep (load32 (mem s) (n + 8)) \<and> branch_register (load32 (mem s) (n + 12))) \<and>
   (is_general_jump s n \<longrightarrow>
      is_general_jump (write32 s n w) n = move_wide w \<and>
      is_general_jump (write32 s (n + 4) w) n = move_wide_keep w \<and>
      is_general_jump (write32 s (n + 8) w) n = move_wide_keep w \<and>
      is_general_jump (write32 s (n + 12) w) n = branch_register w) \<and>
   (\<not> move_wide w \<longrightarrow> \<not> is_general_jump (write32 s n w) n) \<and>
   (\<not> move_wide_keep w \<longrightarrow> \<not> is_general_jump (write32 s (n + 4) w) n) \<and>
   (\<not> move_wide_keep w \<longrightarrow> \<not> is_general_jump (write32 s (n + 8) w) n) \<and>
   (\<not> branch_register w \<longrightarrow> \<not> is_general_jump (write32 s (n + 12) w) n) \<and>
   \<not> move_wide 0xd503201f \<and> \<not> move_wide_keep 0xd503201f \<and>
   \<not> branch_register 0xd503201f"
proof -
  have nop: "\<not> move_wide 0xd503201f \<and> \<not> move_wide_keep 0xd503201f \<and>
      \<not> branch_register 0xd503201f"
    by (simp add: move_wide_def move_wide_keep_def branch_register_def)
  show ?thesis
    using nop
    by (simp add: is_general_jump_words sequence_frame load32_write32_same)
qed

lemma general_jump_state_words:
  "load32 (mem general_jump_state) 0x1300 = 0xd2800008"
  "load32 (mem general_jump_state) 0x1304 = 0xf2a00008"
  "load32 (mem general_jump_state) 0x1308 = 0xf2c00008"
  "load32 (mem general_jump_state) 0x130c = 0xd61f0100"
  by (simp_all add: general_jump_state_def load32_store32_same load32_store32_other
      separate_def)

lemma general_jump_state_is: "is_general_jump general_jump_state 0x1300"
  by (simp add: is_general_jump_words general_jump_state_words move_wide_def
      move_wide_keep_def branch_register_def)

theorem general_jump_substitution_witness:
  "is_general_jump general_jump_state 0x1300 \<and>
   \<not> is_general_jump (write32 general_jump_state 0x1300 0xd503201f) 0x1300 \<and>
   \<not> is_general_jump (write32 general_jump_state 0x1304 0xd503201f) 0x1300 \<and>
   \<not> is_general_jump (write32 general_jump_state 0x1308 0xd503201f) 0x1300 \<and>
   \<not> is_general_jump (write32 general_jump_state 0x130c 0xd503201f) 0x1300"
  using general_jump_substitution [of general_jump_state "0x1300" "0xd503201f"]
    general_jump_state_is
  by simp

text \<open>
  The claim as stated, for any substituted instruction, fails: on the general jump at
  \<open>0x1300\<close>, replacing \<^verbatim>\<open>br x8\<close> by \<^verbatim>\<open>ret\<close> (\<^verbatim>\<open>0xd65f03c0\<close>), or
  \<^verbatim>\<open>movz x8\<close> by \<^verbatim>\<open>movz x9\<close>, leaves \<^verbatim>\<open>is_general_jump\<close> true.
\<close>

theorem general_jump_same_class_substitution:
  "is_general_jump general_jump_state 0x1300 \<and>
   load32 (mem general_jump_state) 0x130c \<noteq> 0xd65f03c0 \<and>
   is_general_jump (write32 general_jump_state 0x130c 0xd65f03c0) 0x1300 \<and>
   load32 (mem general_jump_state) 0x1300 \<noteq> 0xd2800009 \<and>
   is_general_jump (write32 general_jump_state 0x1300 0xd2800009) 0x1300"
  using general_jump_state_is
  by (simp add: is_general_jump_words general_jump_state_words move_wide_def
      move_wide_keep_def branch_register_def load32_write32_same
      sequence_frame [of _ "0x1300", simplified])

text \<open>A general jump passes the check of \<^verbatim>\<open>NativeMovConstReg::verify\<close>.\<close>

lemma general_jump_verifies: "is_general_jump s a \<Longrightarrow> NativeMovConstReg_verify s a"
  by (simp add: is_general_jump_words NativeMovConstReg_verify_def class_words)

end
